theory Spec2Isabelle
  imports Complex_Main "HOL-Library.AList"
begin

section \<open>Outlier utilities of the timing analysis: values and errors\<close>

text \<open>
  The module \<^verbatim>\<open>timing_analysis/outlier_utils.py\<close> is Python. Its floats are modelled
  as the reals they approximate (no rounding, no NaN, no infinities), its unbounded
  integers as \<^typ>\<open>int\<close> and \<^typ>\<open>nat\<close>. Every exception the source can raise in the
  modelled lines is a value of \<open>py_error\<close>; a function that can raise returns
  \<open>py_error + 'a\<close>, with \<open>Inl\<close> for the exception.
\<close>

datatype py_error =
    ZeroDivisionError
  | AttributeError
  | TypeError
  | KeyError
  | IndexError
  | ValueError
  | UnboundLocalError

text \<open>
  The variable \<^verbatim>\<open>ftest\<close> holds either a float or the Python boolean \<^verbatim>\<open>False\<close>.
\<close>

datatype pyval = PyFloat real | PyBool bool

text \<open>
  Python's \<^verbatim>\<open>a / b\<close> on floats (and on a float and an int) raises
  \<^verbatim>\<open>ZeroDivisionError\<close> when \<^verbatim>\<open>b\<close> is zero.
\<close>

definition py_truediv :: "real \<Rightarrow> real \<Rightarrow> py_error + real" where
  "py_truediv a b = (if b = 0 then Inl ZeroDivisionError else Inr (a / b))"

text \<open>
  A bool is an int in Python: in a comparison with a float \<^verbatim>\<open>False\<close> counts as 0
  and \<^verbatim>\<open>True\<close> as 1.
\<close>

fun py_number :: "pyval \<Rightarrow> real" where
  "py_number (PyFloat x) = x"
| "py_number (PyBool b) = (if b then 1 else 0)"

definition py_less :: "pyval \<Rightarrow> real \<Rightarrow> bool" where
  "py_less v t = (py_number v < t)"

section \<open>The F-test statistic\<close>

text \<open>
  \<^verbatim>\<open>
  def Ftest(chi2_1, dof_1, chi2_2, dof_2):
      delta_chi2 = chi2_1 - chi2_2
      if delta_chi2 > 0:
        delta_dof = dof_1 - dof_2
        new_redchi2 = chi2_2 / dof_2
        F = (delta_chi2 / delta_dof) / new_redchi2
        ft = 1.0 - fdtr(delta_dof, dof_2, F)
      else:
        ft = False
      return ft
  \<close>
  The caller passes \<^verbatim>\<open>float\<close>, \<^verbatim>\<open>int\<close>, \<^verbatim>\<open>float\<close>, \<^verbatim>\<open>int\<close>. The distribution
  function \<^verbatim>\<open>fdtr\<close> belongs to \<^verbatim>\<open>scipy.special\<close>; it is a parameter of the model.
  The three divisions are taken in the order of the source.
\<close>

definition Ftest ::
  "(real \<Rightarrow> real \<Rightarrow> real \<Rightarrow> real) \<Rightarrow> real \<Rightarrow> int \<Rightarrow> real \<Rightarrow> int \<Rightarrow> py_error + pyval" where
  "Ftest fdtr chi2_1 dof_1 chi2_2 dof_2 =
     (let delta_chi2 = chi2_1 - chi2_2 in
      if delta_chi2 > 0 then
        (let delta_dof = dof_1 - dof_2 in
         case py_truediv chi2_2 (real_of_int dof_2) of
           Inl e \<Rightarrow> Inl e
         | Inr new_redchi2 \<Rightarrow>
             (case py_truediv delta_chi2 (real_of_int delta_dof) of
                Inl e \<Rightarrow> Inl e
              | Inr q \<Rightarrow>
                  (case py_truediv q new_redchi2 of
                     Inl e \<Rightarrow> Inl e
                   | Inr F \<Rightarrow>
                       Inr (PyFloat (1 - fdtr (real_of_int delta_dof) (real_of_int dof_2) F)))))
      else Inr (PyBool False))"

text \<open>
  The decision of \<^verbatim>\<open>epochalyptica\<close> at lines 247 to 251: the F-test is computed only
  when the refit changed the degrees of freedom, and the epoch is appended to
  \<^verbatim>\<open>epochs_to_drop\<close> when \<^verbatim>\<open>ftest < ftest_threshold\<close>.
  \<^verbatim>\<open>
  if ndof_init != ndof:
      ftest = Ftest(float(chi2_init),int(ndof_init),float(chi2),int(ndof))
      if ftest < ftest_threshold: epochs_to_drop.append(filename)
  else:
      ftest = False
  \<close>
  The result is the value of \<^verbatim>\<open>ftest\<close> and the new \<^verbatim>\<open>epochs_to_drop\<close>.
\<close>

definition ftest_decision ::
  "(real \<Rightarrow> real \<Rightarrow> real \<Rightarrow> real) \<Rightarrow> real \<Rightarrow> real \<Rightarrow> int \<Rightarrow> real \<Rightarrow> int \<Rightarrow> 'n \<Rightarrow> 'n list
     \<Rightarrow> py_error + (pyval \<times> 'n list)" where
  "ftest_decision fdtr ftest_threshold chi2_init ndof_init chi2 ndof filename epochs_to_drop =
     (if ndof_init \<noteq> ndof then
        (case Ftest fdtr chi2_init ndof_init chi2 ndof of
           Inl e \<Rightarrow> Inl e
         | Inr ftest \<Rightarrow>
             Inr (ftest,
                  if py_less ftest ftest_threshold then epochs_to_drop @ [filename]
                  else epochs_to_drop))
      else Inr (PyBool False, epochs_to_drop))"

text \<open>
  For two numerator degrees of freedom and an even number \<open>2 * h\<close> of denominator degrees
  of freedom the F distribution function has the closed form below. It stands in for
  \<^verbatim>\<open>scipy.special.fdtr\<close> where a theorem is evaluated at a concrete input.
\<close>

definition fdtr_closed :: "nat \<Rightarrow> real \<Rightarrow> real \<Rightarrow> real \<Rightarrow> real" where
  "fdtr_closed h a b x = 1 - (b / (b + a * x)) ^ h"

section \<open>The data model\<close>

text \<open>
  A row of the TOA table. The source reads the columns by position, with the comment
  \<^verbatim>\<open>t[1]: mjd, t[2]: mjd (d), t[3]: error (us), t[6]: flags dict\<close>; \<^verbatim>\<open>calculate_pout\<close>
  reads the column \<^verbatim>\<open>index\<close>. A flag value is a string, or the float that
  \<^verbatim>\<open>calculate_pout\<close> stores.
\<close>

datatype flagval = FStr string | FNum real

record toa =
  t_index :: nat
  t_mjd :: real
  t_mjd_float :: real
  t_error :: real
  t_flags :: "(string \<times> flagval) list"

text \<open>
  The TOA container: the current table, the stack of tables saved by \<^verbatim>\<open>select\<close>, and
  the attribute \<^verbatim>\<open>orig_table\<close> that holds every TOA, cut or not.
\<close>

record toas =
  table :: "toa list"
  table_selects :: "toa list list"
  orig_table :: "toa list"

text \<open>
  Modelled from the spec: \<^verbatim>\<open>TOAs.select\<close> and \<^verbatim>\<open>TOAs.unselect\<close> belong to the external
  timing library. The spec says the TOA set "supports masking (temporarily hiding a
  subset) and restoring the full original set": \<open>select\<close> saves the current table and
  keeps the rows whose mask entry is true, \<open>unselect\<close> puts the last saved table back
  (and changes nothing when none was saved).
\<close>

definition select :: "toas \<Rightarrow> bool list \<Rightarrow> toas" where
  "select T selectarray =
     T\<lparr>table_selects := table T # table_selects T,
       table := map fst (filter snd (zip (table T) selectarray))\<rparr>"

definition unselect :: "toas \<Rightarrow> toas" where
  "unselect T =
     (case table_selects T of
        [] \<Rightarrow> T
      | saved # rest \<Rightarrow> T\<lparr>table := saved, table_selects := rest\<rparr>)"

text \<open>
  \<^verbatim>\<open>toas.get_flag_value('name')[0]\<close>: the value of the flag for every row of the current
  table, \<^verbatim>\<open>None\<close> where a row has no such flag.
\<close>

definition get_flag_value :: "string \<Rightarrow> toa list \<Rightarrow> flagval option list" where
  "get_flag_value flag rows = map (\<lambda>t. map_of (t_flags t) flag) rows"

text \<open>
  The parameters of the component \<^verbatim>\<open>DispersionDMX\<close> that the source names by formatted
  strings: \<open>DMXR1 i\<close> stands for \<^verbatim>\<open>f"DMXR1_{i:04d}"\<close>, and so on. The component is the
  dictionary of its parameter values. \<^verbatim>\<open>getattr\<close> raises \<^verbatim>\<open>AttributeError\<close> for a name
  the component does not have; \<^verbatim>\<open>remove_param\<close> of the timing library raises
  \<^verbatim>\<open>ValueError\<close> for such a name and deletes the parameter otherwise.
\<close>

datatype pname = DMXR1 nat | DMXR2 nat | DMX nat

type_synonym dmx_component = "(pname \<times> real) list"

definition getattr :: "dmx_component \<Rightarrow> pname \<Rightarrow> py_error + real" where
  "getattr dmxc p = (case map_of dmxc p of None \<Rightarrow> Inl AttributeError | Some v \<Rightarrow> Inr v)"

definition remove_param :: "dmx_component \<Rightarrow> pname \<Rightarrow> py_error + dmx_component" where
  "remove_param dmxc p =
     (if map_of dmxc p = None then Inl ValueError else Inr (AList.delete p dmxc))"

text \<open>
  Timing models are objects: \<^verbatim>\<open>newmodel = model\<close> makes a second name for the same
  object, \<^verbatim>\<open>copy.deepcopy(model)\<close> a new object. The store is the list of the model
  objects, a reference is a position in it.
\<close>

type_synonym store = "dmx_component list"

definition deepcopy :: "store \<Rightarrow> nat \<Rightarrow> store \<times> nat" where
  "deepcopy h r = (h @ [h ! r], length h)"

text \<open>
  What the module does to the outside, in the order it does it: log records, calls of
  the fitter, of the samplers and of the helpers of the package, and the files written.
\<close>

datatype event =
    LogError string
  | LogInfo string
  | LogNumEpochs nat
  | LogDebug "nat option"
  | GLSFit dmx_component "toa list"
  | CallOutlierHMC nat nat
  | CallGibbs nat
  | ApplyCutFlag "nat list" string
  | ApplyCutSelect string
  | SetupDmx
  | ConstructFitter
  | WriteTim string dmx_component "toa list"

text \<open>
  The functions of other libraries and of other modules of the package that
  \<^verbatim>\<open>epochalyptica\<close> and \<^verbatim>\<open>calculate_pout\<close> call; they are parameters of the model.
  The fitter works on its own copy of the model it is given, so a fit is a function of
  the model's parameters and of the current table.
\<close>

record externals =
  fit_toas :: "dmx_component \<Rightarrow> toa list \<Rightarrow> real"
  residuals_dof :: "dmx_component \<Rightarrow> toa list \<Rightarrow> int"
  special_fdtr :: "real \<Rightarrow> real \<Rightarrow> real \<Rightarrow> real"
  apply_cut_flag :: "toas \<Rightarrow> nat list \<Rightarrow> string \<Rightarrow> toas"
  apply_cut_select :: "toas \<Rightarrow> string \<Rightarrow> toas"
  setup_dmx :: "dmx_component \<Rightarrow> toas \<Rightarrow> dmx_component \<times> toas"
  outlier_hmc :: "dmx_component \<Rightarrow> toa list \<Rightarrow> nat \<Rightarrow> nat \<Rightarrow> real list"
  gibbs_run :: "dmx_component \<Rightarrow> toa list \<Rightarrow> nat \<Rightarrow> real list"

text \<open>
  What the module reads from the timing configuration object \<^verbatim>\<open>tc_object\<close>.
\<close>

record config =
  outfile_basename :: string
  outlier_method :: string
  outlier_samples :: nat
  outlier_burn :: nat
  toa_type :: string

section \<open>The search for the dispersion window of an epoch\<close>

text \<open>
  \<^verbatim>\<open>
  i = 1
  while dmxindex == None:
      DMXval = f"DMXR1_{i:04d}"
      lowerbound = getattr(model.components['DispersionDMX'],DMXval).value
      DMXval = f"DMXR2_{i:04d}"
      upperbound = getattr(model.components['DispersionDMX'],DMXval).value
      if toaval > lowerbound and toaval < upperbound:
          dmxindex = f"{i:04d}"
          dmxlower = lowerbound
          dmxupper = upperbound
      i += 1
  \<close>
  The loop ends when a window is found or a lookup raises. It cannot run forever: a
  lookup that succeeds at \<open>i\<close> shows that \<open>i\<close> is at most the largest index of the
  component.
\<close>

fun pindex :: "pname \<Rightarrow> nat" where
  "pindex (DMXR1 i) = i"
| "pindex (DMXR2 i) = i"
| "pindex (DMX i) = i"

definition max_index :: "dmx_component \<Rightarrow> nat" where
  "max_index dmxc = fold max (map (pindex \<circ> fst) dmxc) 0"

function dmx_search :: "dmx_component \<Rightarrow> real \<Rightarrow> nat \<Rightarrow> py_error + (nat \<times> real \<times> real)" where
  "dmx_search dmxc toaval i =
     (case getattr dmxc (DMXR1 i) of
        Inl e \<Rightarrow> Inl e
      | Inr lowerbound \<Rightarrow>
          (case getattr dmxc (DMXR2 i) of
             Inl e \<Rightarrow> Inl e
           | Inr upperbound \<Rightarrow>
               if toaval > lowerbound \<and> toaval < upperbound
               then Inr (i, lowerbound, upperbound)
               else dmx_search dmxc toaval (i + 1)))"
  by pat_completeness auto
termination
proof (relation "measure (\<lambda>(dmxc, toaval, i). Suc (max_index dmxc) - i)")
  show "wf (measure (\<lambda>(dmxc, toaval, i). Suc (max_index dmxc) - i))" by simp
next
  fix dmxc :: dmx_component and toaval :: real and i :: nat and lowerbound upperbound :: real
  assume g: "getattr dmxc (DMXR1 i) = Inr lowerbound"
  have ge: "b \<le> fold max ys b" for ys :: "nat list" and b :: nat
  proof (induction ys arbitrary: b)
    case Nil
    then show ?case by simp
  next
    case (Cons y ys)
    have "b \<le> max y b" by simp
    also have "\<dots> \<le> fold max ys (max y b)" by (rule Cons.IH)
    finally show ?case by simp
  qed
  have le_fold: "x \<in> set xs \<Longrightarrow> x \<le> fold max xs a" for xs :: "nat list" and a x :: nat
  proof (induction xs arbitrary: a)
    case Nil
    then show ?case by simp
  next
    case (Cons y ys)
    show ?case
    proof (cases "x = y")
      case True
      have "x \<le> max y a" using True by simp
      also have "\<dots> \<le> fold max ys (max y a)" by (rule ge)
      finally show ?thesis by simp
    next
      case False
      then have "x \<in> set ys" using Cons.prems by simp
      then show ?thesis using Cons.IH by simp
    qed
  qed
  from g have "map_of dmxc (DMXR1 i) \<noteq> None"
    by (auto simp: getattr_def split: option.splits)
  then obtain v where "(DMXR1 i, v) \<in> set dmxc"
    by (auto dest: map_of_SomeD)
  then have "i \<in> set (map (pindex \<circ> fst) dmxc)" by force
  then have "i \<le> max_index dmxc" unfolding max_index_def by (rule le_fold)
  then show "((dmxc, toaval, i + 1), (dmxc, toaval, i))
               \<in> measure (\<lambda>(dmxc, toaval, i). Suc (max_index dmxc) - i)"
    by simp
qed

declare dmx_search.simps [simp del]

text \<open>
  The window with index \<open>i\<close>, when the component has both of its bounds, and whether a
  time lies strictly inside it.
\<close>

definition window :: "dmx_component \<Rightarrow> nat \<Rightarrow> (real \<times> real) option" where
  "window dmxc i =
     (case map_of dmxc (DMXR1 i) of
        None \<Rightarrow> None
      | Some lo \<Rightarrow> (case map_of dmxc (DMXR2 i) of None \<Rightarrow> None | Some hi \<Rightarrow> Some (lo, hi)))"

definition inside :: "real \<Rightarrow> (real \<times> real) option \<Rightarrow> bool" where
  "inside x w = (case w of None \<Rightarrow> False | Some (lo, hi) \<Rightarrow> lo < x \<and> x < hi)"

section \<open>One epoch of the excision loop\<close>

text \<open>
  The local variables that the scan of the table sets (lines 198 to 227), and the scan
  itself:
  \<^verbatim>\<open>
  for index,t in enumerate(toas.table):
      if t[6]['name'] == filename:
          if receiver == None:
              receiver = t[6]['f']
          if mjd == None:
              mjd = int(t[1].value)
          if toaval == None:
              toaval = t[2]
              i = 1
              while dmxindex == None: ...
          sum = sum + 1.0 / (float(t[3])**2.0)
          maskarray[index] = False
  \<close>
\<close>

record scan =
  s_receiver :: "flagval option"
  s_mjd :: "int option"
  s_toaval :: "real option"
  s_dmxindex :: "nat option"
  s_dmxlower :: "real option"
  s_dmxupper :: "real option"
  s_sum :: real
  s_maskarray :: "bool list"

definition scan_init :: "nat \<Rightarrow> scan" where
  "scan_init n =
     \<lparr>s_receiver = None, s_mjd = None, s_toaval = None, s_dmxindex = None,
      s_dmxlower = None, s_dmxupper = None, s_sum = 0, s_maskarray = replicate n True\<rparr>"

text \<open>Python's \<^verbatim>\<open>int\<close> of a float truncates towards zero.\<close>

definition py_int :: "real \<Rightarrow> int" where
  "py_int x = (if 0 \<le> x then \<lfloor>x\<rfloor> else \<lceil>x\<rceil>)"

definition set_receiver :: "toa \<Rightarrow> scan \<Rightarrow> py_error + scan" where
  "set_receiver t s =
     (if s_receiver s = None then
        (case map_of (t_flags t) ''f'' of
           None \<Rightarrow> Inl KeyError
         | Some r \<Rightarrow> Inr (s\<lparr>s_receiver := Some r\<rparr>))
      else Inr s)"

definition set_mjd :: "toa \<Rightarrow> scan \<Rightarrow> scan" where
  "set_mjd t s = (if s_mjd s = None then s\<lparr>s_mjd := Some (py_int (t_mjd t))\<rparr> else s)"

definition set_toaval :: "dmx_component \<Rightarrow> toa \<Rightarrow> scan \<Rightarrow> py_error + scan" where
  "set_toaval dmxc t s =
     (if s_toaval s = None then
        (let s1 = s\<lparr>s_toaval := Some (t_mjd_float t)\<rparr> in
         if s_dmxindex s1 = None then
           (case dmx_search dmxc (t_mjd_float t) 1 of
              Inl e \<Rightarrow> Inl e
            | Inr (i, lowerbound, upperbound) \<Rightarrow>
                Inr (s1\<lparr>s_dmxindex := Some i, s_dmxlower := Some lowerbound,
                        s_dmxupper := Some upperbound\<rparr>))
         else Inr s1)
      else Inr s)"

definition add_weight :: "toa \<Rightarrow> nat \<Rightarrow> scan \<Rightarrow> py_error + scan" where
  "add_weight t idx s =
     (case py_truediv 1 ((t_error t) ^ 2) of
        Inl e \<Rightarrow> Inl e
      | Inr w \<Rightarrow>
          if idx < length (s_maskarray s)
          then Inr (s\<lparr>s_sum := s_sum s + w, s_maskarray := (s_maskarray s)[idx := False]\<rparr>)
          else Inl IndexError)"

definition scan_row ::
  "dmx_component \<Rightarrow> flagval option \<Rightarrow> nat \<Rightarrow> toa \<Rightarrow> scan \<Rightarrow> py_error + scan" where
  "scan_row dmxc filename idx t s =
     (case map_of (t_flags t) ''name'' of
        None \<Rightarrow> Inl KeyError
      | Some nm \<Rightarrow>
          if Some nm = filename then
            (case set_receiver t s of
               Inl e \<Rightarrow> Inl e
             | Inr s1 \<Rightarrow>
                 (case set_toaval dmxc t (set_mjd t s1) of
                    Inl e \<Rightarrow> Inl e
                  | Inr s2 \<Rightarrow> add_weight t idx s2))
          else Inr s)"

fun scan_rows ::
  "dmx_component \<Rightarrow> flagval option \<Rightarrow> nat \<Rightarrow> toa list \<Rightarrow> scan \<Rightarrow> py_error + scan" where
  "scan_rows dmxc filename idx [] s = Inr s"
| "scan_rows dmxc filename idx (t # ts) s =
     (case scan_row dmxc filename idx t s of
        Inl e \<Rightarrow> Inl e
      | Inr s' \<Rightarrow> scan_rows dmxc filename (Suc idx) ts s')"

text \<open>
  \<^verbatim>\<open>
  numtoas_in_dmxrange = 0
  for toa in toas.table:
      if toa[2] > dmxlower and toa[2] < dmxupper:
          numtoas_in_dmxrange += 1
  \<close>
  A comparison of a float with \<^verbatim>\<open>None\<close> raises \<^verbatim>\<open>TypeError\<close>.
\<close>

fun count_in_dmxrange ::
  "toa list \<Rightarrow> real option \<Rightarrow> real option \<Rightarrow> nat \<Rightarrow> py_error + nat" where
  "count_in_dmxrange [] dmxlower dmxupper n = Inr n"
| "count_in_dmxrange (t # ts) dmxlower dmxupper n =
     (case dmxlower of
        None \<Rightarrow> Inl TypeError
      | Some lo \<Rightarrow>
          if t_mjd_float t > lo then
            (case dmxupper of
               None \<Rightarrow> Inl TypeError
             | Some hi \<Rightarrow>
                 count_in_dmxrange ts dmxlower dmxupper
                   (if t_mjd_float t < hi then n + 1 else n))
          else count_in_dmxrange ts dmxlower dmxupper n)"

text \<open>
  \<^verbatim>\<open>
  newmodel = copy.deepcopy(model)
  newmodel.components['DispersionDMX'].remove_param(f'DMXR1_{dmxindex}')
  newmodel.components['DispersionDMX'].remove_param(f'DMXR2_{dmxindex}')
  newmodel.components['DispersionDMX'].remove_param(f'DMX_{dmxindex}')
  \<close>
  With \<^verbatim>\<open>dmxindex\<close> still \<^verbatim>\<open>None\<close> the name is \<^verbatim>\<open>DMXR1_None\<close>, which no component
  has.
\<close>

definition remove_dmx :: "store \<Rightarrow> nat \<Rightarrow> nat option \<Rightarrow> py_error + (store \<times> nat)" where
  "remove_dmx h model dmxindex =
     (case deepcopy h model of
        (h1, newmodel) \<Rightarrow>
          (case dmxindex of
             None \<Rightarrow> Inl ValueError
           | Some k \<Rightarrow>
               (case remove_param (h1 ! newmodel) (DMXR1 k) of
                  Inl e \<Rightarrow> Inl e
                | Inr c1 \<Rightarrow>
                    (case remove_param c1 (DMXR2 k) of
                       Inl e \<Rightarrow> Inl e
                     | Inr c2 \<Rightarrow>
                         (case remove_param c2 (DMX k) of
                            Inl e \<Rightarrow> Inl e
                          | Inr c3 \<Rightarrow> Inr (h1[newmodel := c3], newmodel))))))"

text \<open>
  A line of \<^verbatim>\<open>epochdrop.txt\<close>, by its fields:
  \<^verbatim>\<open>f"{filename} {receiver} {mjd:d} {(ntoas_init - ntoas):d} {ftest:e} {1.0/np.sqrt(sum)}\n"\<close>.
  The presentation type \<^verbatim>\<open>e\<close> writes a number in scientific notation; applied to a bool
  it writes the bool's number, so \<^verbatim>\<open>False\<close> is written as \<^verbatim>\<open>0.000000e+00\<close>. The field
  \<open>l_ftest\<close> is the number written. \<^verbatim>\<open>{mjd:d}\<close> raises \<^verbatim>\<open>TypeError\<close> for \<^verbatim>\<open>None\<close>.
\<close>

definition py_format_e :: "pyval \<Rightarrow> real" where
  "py_format_e v = py_number v"

record epoch_line =
  l_filename :: "flagval option"
  l_receiver :: "flagval option"
  l_mjd :: int
  l_toas_removed :: int
  l_ftest :: real
  l_uncertainty :: real

text \<open>
  The state that the loop over the epochs changes: the TOA container, the store of model
  objects, the list \<^verbatim>\<open>epochs_to_drop\<close>, the lines written to \<^verbatim>\<open>fout\<close>, and the events.
\<close>

record loop_state =
  st_toas :: toas
  st_store :: store
  st_epochs_to_drop :: "flagval option list"
  st_fout :: "epoch_line list"
  st_trace :: "event list"

text \<open>
  The body of the loop, lines 198 to 253. The reduced chi-squared values of lines 188 and
  246 are never used; the fitter's chi-squared is a numpy scalar, whose division by a
  zero number of degrees of freedom gives an infinity and raises nothing, so the two
  divisions are left out. On an exception the function is left at once; the result is
  then the exception alone.
\<close>

definition epoch_iter ::
  "externals \<Rightarrow> real \<Rightarrow> real \<Rightarrow> int \<Rightarrow> nat \<Rightarrow> nat \<Rightarrow> flagval option list
     \<Rightarrow> loop_state \<Rightarrow> flagval option \<Rightarrow> py_error + loop_state" where
  "epoch_iter X ftest_threshold chi2_init ndof_init ntoas_init model filenames st filename =
     (case scan_rows (st_store st ! model) filename 0 (table (st_toas st))
             (scan_init (length filenames)) of
        Inl e \<Rightarrow> Inl e
      | Inr s \<Rightarrow>
          if length (s_maskarray s) \<noteq> length (table (st_toas st)) then Inl IndexError
          else
            (let T1 = select (st_toas st) (s_maskarray s) in
             case count_in_dmxrange (table T1) (s_dmxlower s) (s_dmxupper s) 0 of
               Inl e \<Rightarrow> Inl e
             | Inr numtoas_in_dmxrange \<Rightarrow>
                 (case (if numtoas_in_dmxrange = 0
                        then remove_dmx (st_store st) model (s_dmxindex s)
                        else Inr (st_store st, model)) of
                    Inl e \<Rightarrow> Inl e
                  | Inr (h1, newmodel) \<Rightarrow>
                      (let chi2 = fit_toas X (h1 ! newmodel) (table T1);
                           ndof = residuals_dof X (h1 ! newmodel) (table T1);
                           ntoas = length (table T1)
                       in case ftest_decision (special_fdtr X) ftest_threshold chi2_init
                                 ndof_init chi2 ndof filename (st_epochs_to_drop st) of
                            Inl e \<Rightarrow> Inl e
                          | Inr (ftest, drops) \<Rightarrow>
                              (case s_mjd s of
                                 None \<Rightarrow> Inl TypeError
                               | Some m \<Rightarrow>
                                   Inr \<lparr>st_toas = unselect T1,
                                        st_store = h1,
                                        st_epochs_to_drop = drops,
                                        st_fout = st_fout st @
                                          [\<lparr>l_filename = filename,
                                            l_receiver = s_receiver s,
                                            l_mjd = m,
                                            l_toas_removed = int ntoas_init - int ntoas,
                                            l_ftest = py_format_e ftest,
                                            l_uncertainty = 1 / sqrt (s_sum s)\<rparr>],
                                        st_trace = st_trace st @
                                          (if numtoas_in_dmxrange = 0
                                           then [LogDebug (s_dmxindex s)] else []) @
                                          [GLSFit (h1 ! newmodel) (table T1)]\<rparr>)))))"

fun epoch_loop ::
  "externals \<Rightarrow> real \<Rightarrow> real \<Rightarrow> int \<Rightarrow> nat \<Rightarrow> nat \<Rightarrow> flagval option list
     \<Rightarrow> loop_state \<Rightarrow> flagval option list \<Rightarrow> py_error + loop_state" where
  "epoch_loop X ftest_threshold chi2_init ndof_init ntoas_init model filenames st [] = Inr st"
| "epoch_loop X ftest_threshold chi2_init ndof_init ntoas_init model filenames st (filename # rest) =
     (case epoch_iter X ftest_threshold chi2_init ndof_init ntoas_init model filenames st
             filename of
        Inl e \<Rightarrow> Inl e
      | Inr st' \<Rightarrow>
          epoch_loop X ftest_threshold chi2_init ndof_init ntoas_init model filenames st' rest)"

section \<open>The whole of epochalyptica\<close>

text \<open>
  Lines 256 to 276, after the loop:
  \<^verbatim>\<open>
  names = np.array([f['name'] for f in toas.orig_table['flags']])
  for etd in epochs_to_drop:
      epochdropinds = np.where(names==etd)[0]
      apply_cut_flag(toas,epochdropinds,'epochdrop')
  if len(epochs_to_drop):
      apply_cut_select(toas,reason='epoch drop analysis')
      toas = setup_dmx(model,toas,frequency_ratio=...,max_delta_t=...)
  else:
      log.info('No epochs dropped (epochalyptica).')
  toas.table = toas.orig_table
  fo = tc_object.construct_fitter(toas,model)
  excise_timfile = f'{outdir}/{tc_object.get_outfile_basename()}_excise.tim'
  write_tim(fo,toatype=tc_object.get_toa_type(),outfile=excise_timfile)
  apply_cut_select(toas,reason='resumption after write_tim (excise)')
  \<close>
  \<^verbatim>\<open>setup_dmx\<close> changes the model object it is given and returns the TOA container.
\<close>

fun names_of :: "toa list \<Rightarrow> py_error + flagval list" where
  "names_of [] = Inr []"
| "names_of (t # ts) =
     (case map_of (t_flags t) ''name'' of
        None \<Rightarrow> Inl KeyError
      | Some nm \<Rightarrow> (case names_of ts of Inl e \<Rightarrow> Inl e | Inr ns \<Rightarrow> Inr (nm # ns)))"

definition where_eq :: "flagval list \<Rightarrow> flagval option \<Rightarrow> nat list" where
  "where_eq names etd = filter (\<lambda>i. Some (names ! i) = etd) [0..<length names]"

fun apply_epochdrop ::
  "externals \<Rightarrow> flagval list \<Rightarrow> flagval option list \<Rightarrow> toas \<times> event list
     \<Rightarrow> toas \<times> event list" where
  "apply_epochdrop X names [] (T, ev) = (T, ev)"
| "apply_epochdrop X names (etd # etds) (T, ev) =
     apply_epochdrop X names etds
       (apply_cut_flag X T (where_eq names etd) ''epochdrop'',
        ev @ [ApplyCutFlag (where_eq names etd) ''epochdrop''])"

definition outdir :: "config \<Rightarrow> string" where
  "outdir tc = ''outlier/'' @ outfile_basename tc"

definition excise_timfile :: "config \<Rightarrow> string" where
  "excise_timfile tc = outdir tc @ ''/'' @ outfile_basename tc @ ''_excise.tim''"

definition write_excise ::
  "externals \<Rightarrow> config \<Rightarrow> nat \<Rightarrow> loop_state \<Rightarrow> py_error + (toas \<times> store \<times> event list)" where
  "write_excise X tc model st =
     (case names_of (orig_table (st_toas st)) of
        Inl e \<Rightarrow> Inl e
      | Inr names \<Rightarrow>
          (case apply_epochdrop X names (st_epochs_to_drop st) (st_toas st, st_trace st) of
             (T1, ev1) \<Rightarrow>
               (case (if length (st_epochs_to_drop st) \<noteq> 0 then
                        (case setup_dmx X (st_store st ! model)
                                (apply_cut_select X T1 ''epoch drop analysis'') of
                           (m', T3) \<Rightarrow>
                             (T3, (st_store st)[model := m'],
                              ev1 @ [ApplyCutSelect ''epoch drop analysis'', SetupDmx]))
                      else
                        (T1, st_store st, ev1 @ [LogInfo ''No epochs dropped (epochalyptica).''])) of
                  (T3, h, ev2) \<Rightarrow>
                    (let T4 = T3\<lparr>table := orig_table T3\<rparr> in
                     Inr (apply_cut_select X T4 ''resumption after write_tim (excise)'',
                          h,
                          ev2 @ [ConstructFitter,
                                 WriteTim (excise_timfile tc) (h ! model) (table T4),
                                 ApplyCutSelect ''resumption after write_tim (excise)''])))))"

text \<open>
  The function from its first line. The loop runs over \<^verbatim>\<open>set(filenames)\<close>, whose order
  Python leaves open; \<open>remdups\<close> gives one order, and the properties of the loop below
  hold for every list of epochs.
\<close>

definition epochalyptica_loop ::
  "externals \<Rightarrow> real \<Rightarrow> nat \<Rightarrow> store \<Rightarrow> toas \<Rightarrow> py_error + loop_state" where
  "epochalyptica_loop X ftest_threshold model h T =
     (let chi2_init = fit_toas X (h ! model) (table T);
          ndof_init = residuals_dof X (h ! model) (table T);
          ntoas_init = length (table T);
          filenames = get_flag_value ''name'' (table T);
          numepochs = length (remdups filenames);
          st0 = \<lparr>st_toas = T, st_store = h, st_epochs_to_drop = [], st_fout = [],
                 st_trace = [GLSFit (h ! model) (table T), LogNumEpochs numepochs]\<rparr>
      in epoch_loop X ftest_threshold chi2_init ndof_init ntoas_init model filenames st0
           (remdups filenames))"

definition epochalyptica ::
  "externals \<Rightarrow> config \<Rightarrow> real \<Rightarrow> nat \<Rightarrow> store \<Rightarrow> toas
     \<Rightarrow> py_error + (toas \<times> store \<times> epoch_line list \<times> event list)" where
  "epochalyptica X tc ftest_threshold model h T =
     (case epochalyptica_loop X ftest_threshold model h T of
        Inl e \<Rightarrow> Inl e
      | Inr st \<Rightarrow>
          (case write_excise X tc model st of
             Inl e \<Rightarrow> Inl e
           | Inr (T', h', ev) \<Rightarrow> Inr (T', h', st_fout st, ev)))"

section \<open>The outlier probabilities\<close>

text \<open>
  \<^verbatim>\<open>
  if method == 'hmc':
      epp = get_entPintPulsar(model, toas, drop_pintpsr=False)
      pout = OutlierHMC(epp, outdir=results_dir, Nsamples=Nsamples, Nburnin=Nburnin)
  elif method == 'gibbs':
      epp = get_entPintPulsar(model, toas)
      pout = gibbs_run(epp,results_dir=results_dir,Nsamples=Nsamples)
  else:
      log.error(f'Specified method ({method}) is not recognized.')

  for i,oi in enumerate(toas.table['index']):
      toas.orig_table[oi]['flags'][f'pout_{method}'] = pout[i]
  \<close>
  In the last branch \<^verbatim>\<open>pout\<close> is not bound; reading it raises \<^verbatim>\<open>UnboundLocalError\<close>.
  The right-hand side of the assignment is evaluated before its target.
\<close>

fun pout_flags ::
  "string \<Rightarrow> real list option \<Rightarrow> nat \<Rightarrow> nat list \<Rightarrow> toa list \<Rightarrow> py_error + toa list" where
  "pout_flags method pout i [] orig = Inr orig"
| "pout_flags method pout i (oi # ois) orig =
     (case pout of
        None \<Rightarrow> Inl UnboundLocalError
      | Some p \<Rightarrow>
          if length p \<le> i then Inl IndexError
          else if length orig \<le> oi then Inl IndexError
          else pout_flags method pout (Suc i) ois
                 (orig[oi := (orig ! oi)
                    \<lparr>t_flags := AList.update (''pout_'' @ method) (FNum (p ! i))
                                 (t_flags (orig ! oi))\<rparr>]))"

definition pout_timfile :: "config \<Rightarrow> string" where
  "pout_timfile tc = outdir tc @ ''/'' @ outfile_basename tc @ ''_pout.tim''"

text \<open>
  The result is the list of events up to the return or the exception, and the TOA
  container or the exception.
  \<^verbatim>\<open>
  toas.table = toas.orig_table
  fo = tc_object.construct_fitter(toas,model)
  pout_timfile = f'{results_dir}/{tc_object.get_outfile_basename()}_pout.tim'
  write_tim(fo,toatype=tc_object.get_toa_type(),outfile=pout_timfile)
  apply_cut_select(toas,reason='resumption after write_tim, pout')
  \<close>
\<close>

definition calculate_pout ::
  "externals \<Rightarrow> config \<Rightarrow> dmx_component \<Rightarrow> toas \<Rightarrow> event list \<times> (py_error + toas)" where
  "calculate_pout X tc model T =
     (let method = outlier_method tc;
          Nsamples = outlier_samples tc;
          Nburnin = outlier_burn tc
      in case (if method = ''hmc'' then
                 (Some (outlier_hmc X model (table T) Nsamples Nburnin),
                  [CallOutlierHMC Nsamples Nburnin])
               else if method = ''gibbs'' then
                 (Some (gibbs_run X model (table T) Nsamples), [CallGibbs Nsamples])
               else
                 (None, [LogError (''Specified method ('' @ method @ '') is not recognized.'')])) of
           (pout, ev) \<Rightarrow>
             (case pout_flags method pout 0 (map t_index (table T)) (orig_table T) of
                Inl e \<Rightarrow> (ev, Inl e)
              | Inr orig \<Rightarrow>
                  (ev @ [ConstructFitter, WriteTim (pout_timfile tc) model orig,
                         ApplyCutSelect ''resumption after write_tim, pout''],
                   Inr (apply_cut_select X (T\<lparr>table := orig, orig_table := orig\<rparr>)
                          ''resumption after write_tim, pout''))))"

section \<open>Vocabulary of the properties\<close>

text \<open>
  The epoch of a row is the value of its flag \<^verbatim>\<open>name\<close>. The rows of an epoch are the rows
  the mask hides; the other rows are those \<^verbatim>\<open>select\<close> keeps. \<open>remove_window k\<close> is the
  component without the three parameters of window \<open>k\<close>. \<open>weight_sum\<close> is the sum of
  \<open>1 / error\<^sup>2\<close> over a list of rows. \<open>unset\<close> and \<open>found_by\<close> describe the locals of
  the scan before and after the first row of the epoch. \<open>no_toa_inside\<close> says that no row
  lies strictly between two bounds, and \<open>fitted_model\<close> is the component handed to the
  fitter by the rule of lines 235 to 241.
\<close>

definition toa_name :: "toa \<Rightarrow> flagval option" where
  "toa_name t = map_of (t_flags t) ''name''"

definition epoch_rows :: "flagval option \<Rightarrow> toa list \<Rightarrow> toa list" where
  "epoch_rows filename rows = filter (\<lambda>t. toa_name t = filename) rows"

definition other_rows :: "flagval option \<Rightarrow> toa list \<Rightarrow> toa list" where
  "other_rows filename rows = filter (\<lambda>t. toa_name t \<noteq> filename) rows"

definition remove_window :: "nat \<Rightarrow> dmx_component \<Rightarrow> dmx_component" where
  "remove_window k dmxc = AList.delete (DMX k) (AList.delete (DMXR2 k) (AList.delete (DMXR1 k) dmxc))"

definition weight_sum :: "toa list \<Rightarrow> real" where
  "weight_sum rows = sum_list (map (\<lambda>t. 1 / (t_error t) ^ 2) rows)"

definition unset :: "scan \<Rightarrow> bool" where
  "unset s = (s_receiver s = None \<and> s_mjd s = None \<and> s_toaval s = None \<and> s_dmxindex s = None
              \<and> s_dmxlower s = None \<and> s_dmxupper s = None)"

definition found_by :: "dmx_component \<Rightarrow> toa \<Rightarrow> scan \<Rightarrow> bool" where
  "found_by dmxc t0 s =
     (s_receiver s = map_of (t_flags t0) ''f'' \<and> s_receiver s \<noteq> None
      \<and> s_mjd s = Some (py_int (t_mjd t0))
      \<and> s_toaval s = Some (t_mjd_float t0)
      \<and> (\<exists>k lo hi. dmx_search dmxc (t_mjd_float t0) 1 = Inr (k, lo, hi)
            \<and> s_dmxindex s = Some k \<and> s_dmxlower s = Some lo \<and> s_dmxupper s = Some hi))"

definition no_toa_inside :: "real \<Rightarrow> real \<Rightarrow> toa list \<Rightarrow> bool" where
  "no_toa_inside lo hi rows = (filter (\<lambda>t. lo < t_mjd_float t \<and> t_mjd_float t < hi) rows = [])"

definition fitted_model :: "dmx_component \<Rightarrow> nat \<Rightarrow> real \<Rightarrow> real \<Rightarrow> toa list \<Rightarrow> dmx_component" where
  "fitted_model dmxc k lo hi remaining =
     (if no_toa_inside lo hi remaining then remove_window k dmxc else dmxc)"

text \<open>
  The value of \<^verbatim>\<open>ftest\<close> after lines 247 to 251, without the list of epochs to drop.
\<close>

definition ftest_value ::
  "(real \<Rightarrow> real \<Rightarrow> real \<Rightarrow> real) \<Rightarrow> real \<Rightarrow> int \<Rightarrow> real \<Rightarrow> int \<Rightarrow> py_error + pyval" where
  "ftest_value fdtr chi2_init ndof_init chi2 ndof =
     (if ndof_init \<noteq> ndof then Ftest fdtr chi2_init ndof_init chi2 ndof
      else Inr (PyBool False))"

text \<open>
  The line of \<^verbatim>\<open>epochdrop.txt\<close> that the spec describes for an epoch, from the full table
  and the baseline component: the file name, the receiver and the integer MJD of the
  epoch's first row, the initial number of TOAs minus the number left by the mask, the
  F-test of the refit, and \<open>1 / sqrt\<close> of the sum of \<open>1 / error\<^sup>2\<close> over the epoch's rows.
  It is \<open>None\<close> where the epoch has no row, no window or no F-test.
\<close>

definition expected_line ::
  "externals \<Rightarrow> real \<Rightarrow> int \<Rightarrow> nat \<Rightarrow> dmx_component \<Rightarrow> toa list \<Rightarrow> flagval option
     \<Rightarrow> epoch_line option" where
  "expected_line X chi2_init ndof_init ntoas_init dmxc rows filename =
     (case find (\<lambda>t. toa_name t = filename) rows of
        None \<Rightarrow> None
      | Some t0 \<Rightarrow>
          (case dmx_search dmxc (t_mjd_float t0) 1 of
             Inl e \<Rightarrow> None
           | Inr (k, lo, hi) \<Rightarrow>
               (let remaining = other_rows filename rows;
                    fm = fitted_model dmxc k lo hi remaining
                in case ftest_value (special_fdtr X) chi2_init ndof_init
                          (fit_toas X fm remaining) (residuals_dof X fm remaining) of
                     Inl e \<Rightarrow> None
                   | Inr ftest \<Rightarrow>
                       Some \<lparr>l_filename = filename,
                             l_receiver = map_of (t_flags t0) ''f'',
                             l_mjd = py_int (t_mjd t0),
                             l_toas_removed = int ntoas_init - int (length remaining),
                             l_ftest = py_format_e ftest,
                             l_uncertainty = 1 / sqrt (weight_sum (epoch_rows filename rows))\<rparr>)))"

text \<open>
  The TOA container after the cut flags of lines 258 to 260, and the events that are a
  cut or a window setup.
\<close>

fun cut_flagged :: "externals \<Rightarrow> flagval list \<Rightarrow> flagval option list \<Rightarrow> toas \<Rightarrow> toas" where
  "cut_flagged X names [] T = T"
| "cut_flagged X names (etd # etds) T =
     cut_flagged X names etds (apply_cut_flag X T (where_eq names etd) ''epochdrop'')"

definition is_cut_or_setup :: "event \<Rightarrow> bool" where
  "is_cut_or_setup e =
     (case e of ApplyCutFlag inds r \<Rightarrow> True | ApplyCutSelect r \<Rightarrow> True | SetupDmx \<Rightarrow> True
      | _ \<Rightarrow> False)"

text \<open>
  The error record for an unrecognized method, and the events of \<^verbatim>\<open>calculate_pout\<close>
  from the construction of the fitter on.
\<close>

definition unrecognized :: "string \<Rightarrow> event" where
  "unrecognized method = LogError (''Specified method ('' @ method @ '') is not recognized.'')"

definition pout_written :: "externals \<Rightarrow> config \<Rightarrow> dmx_component \<Rightarrow> toa list \<Rightarrow> event list" where
  "pout_written X tc model rows =
     [ConstructFitter, WriteTim (pout_timfile tc) model rows,
      ApplyCutSelect ''resumption after write_tim, pout'']"

section \<open>Concrete inputs\<close>

text \<open>
  A component with two adjacent windows, and one whose indices have a gap (windows 1 and
  3, as after a \<^verbatim>\<open>remove_param\<close> of window 2).
\<close>

definition two_windows :: dmx_component where
  "two_windows =
     [(DMXR1 1, 0), (DMXR2 1, 10), (DMX 1, 1), (DMXR1 2, 10), (DMXR2 2, 20), (DMX 2, 1)]"

definition gapped :: dmx_component where
  "gapped =
     [(DMXR1 1, 0), (DMXR2 1, 10), (DMX 1, 1), (DMXR1 3, 20), (DMXR2 3, 30), (DMX 3, 1)]"

text \<open>
  Three TOAs with unit errors: the epoch \<^verbatim>\<open>a.ff\<close> has one TOA inside window 1 of
  \<open>two_windows\<close> and one inside window 2, the epoch \<^verbatim>\<open>b.ff\<close> has one TOA inside window
  2. The fitter of \<open>ext c\<close> returns chi-squared 100 on the three TOAs and \<open>c\<close> on fewer;
  its degrees of freedom are ten per TOA minus the number of parameters.
\<close>

definition row :: "nat \<Rightarrow> real \<Rightarrow> string \<Rightarrow> toa" where
  "row i m nm = \<lparr>t_index = i, t_mjd = m, t_mjd_float = m, t_error = 1,
                 t_flags = [(''name'', FStr nm), (''f'', FStr ''Rcvr_800'')]\<rparr>"

definition rows3 :: "toa list" where
  "rows3 = [row 0 (11 / 2) ''a.ff'', row 1 (61 / 4) ''a.ff'', row 2 (33 / 2) ''b.ff'']"

definition toas3 :: toas where
  "toas3 = \<lparr>table = rows3, table_selects = [], orig_table = rows3\<rparr>"

definition ext :: "real \<Rightarrow> externals" where
  "ext c = \<lparr>fit_toas = (\<lambda>m rows. if length rows = 3 then 100 else c),
            residuals_dof = (\<lambda>m rows. 10 * int (length rows) - int (length m)),
            special_fdtr = fdtr_closed 24,
            apply_cut_flag = (\<lambda>T inds reason. T),
            apply_cut_select = (\<lambda>T reason. T),
            setup_dmx = (\<lambda>m T. (m, T)),
            outlier_hmc = (\<lambda>m rows n b. map (\<lambda>t. 1 / 2) rows),
            gibbs_run = (\<lambda>m rows n. map (\<lambda>t. 1 / 4) rows)\<rparr>"

definition tc0 :: config where
  "tc0 = \<lparr>outfile_basename = ''J0000'', outlier_method = ''hmc'', outlier_samples = 10,
           outlier_burn = 2, toa_type = ''NB''\<rparr>"

definition st3 :: loop_state where
  "st3 = \<lparr>st_toas = toas3, st_store = [two_windows], st_epochs_to_drop = [], st_fout = [],
           st_trace = []\<rparr>"

text \<open>
  A configuration with a method name that is not recognized, and a TOA container whose
  current table is empty because every TOA has been cut.
\<close>

definition tc_foo :: config where
  "tc_foo = tc0\<lparr>outlier_method := ''foo''\<rparr>"

definition toas_all_cut :: toas where
  "toas_all_cut = toas3\<lparr>table := []\<rparr>"

section \<open>Properties of the F-test\<close>

lemma fdtr_closed_range:
  assumes "0 < a" "0 < b" "0 \<le> x"
  shows "0 \<le> fdtr_closed h a b x \<and> fdtr_closed h a b x \<le> 1"
proof -
  have pos: "0 < b + a * x" using assms by (simp add: add_pos_nonneg)
  have le: "b \<le> b + a * x" using assms by simp
  have q0: "0 \<le> b / (b + a * x)" using assms pos by simp
  have q1: "b / (b + a * x) \<le> 1" using pos le by simp
  have "0 \<le> (b / (b + a * x)) ^ h" using q0 by simp
  moreover have "(b / (b + a * x)) ^ h \<le> 1" using q0 q1 by (rule power_le_one)
  ultimately show ?thesis by (simp add: fdtr_closed_def)
qed

text \<open>
  Claim C2. Whenever the candidate's chi-squared \<open>chi2_2\<close> is not lower than the
  baseline's \<open>chi2_1\<close>, \<open>Ftest\<close> returns the sentinel \<^verbatim>\<open>False\<close>: a value that is not a
  float, and no exception, whatever the degrees of freedom are.
\<close>

theorem Ftest_sentinel:
  assumes "chi2_1 \<le> chi2_2"
  shows "Ftest fdtr chi2_1 dof_1 chi2_2 dof_2 = Inr (PyBool False)"
  using assms by (simp add: Ftest_def)

theorem Ftest_sentinel_witness:
  "(100::real) \<le> 110 \<and> Ftest (fdtr_closed 24) 100 50 110 48 = Inr (PyBool False)"
  using Ftest_sentinel [of 100 110 "fdtr_closed 24" 50 48] by simp

text \<open>
  Claim C3. For \<open>chi2_1 > chi2_2 > 0\<close> and \<open>dof_1 > dof_2 > 0\<close>, \<open>Ftest\<close> returns a
  float, equal to one minus \<open>fdtr (dof_1 - dof_2) dof_2 F\<close> at the statistic
  \<open>F = ((chi2_1 - chi2_2) / (dof_1 - dof_2)) / (chi2_2 / dof_2)\<close>, and the value lies in
  \<open>[0, 1]\<close>, given that \<open>fdtr\<close> is a distribution function on its domain (values in
  \<open>[0, 1]\<close> for positive degrees of freedom and a non-negative argument). At the input
  120, 50, 100, 48 the statistic is 24/5 and the result is \<open>1 - fdtr 2 48 (24/5)\<close>, which
  lies strictly between 0 and 1 when \<open>fdtr\<close> does there.
\<close>

theorem Ftest_survival:
  assumes cdf: "\<And>a b x. 0 < a \<Longrightarrow> 0 < b \<Longrightarrow> 0 \<le> x \<Longrightarrow> 0 \<le> fdtr a b x \<and> fdtr a b x \<le> 1"
    and chi: "chi2_2 < chi2_1" "0 < chi2_2"
    and dof: "dof_2 < dof_1" "0 < dof_2"
  shows "(\<exists>p. Ftest fdtr chi2_1 dof_1 chi2_2 dof_2 = Inr (PyFloat p)
            \<and> p = 1 - fdtr (real_of_int (dof_1 - dof_2)) (real_of_int dof_2)
                    (((chi2_1 - chi2_2) / real_of_int (dof_1 - dof_2))
                       / (chi2_2 / real_of_int dof_2))
            \<and> 0 \<le> p \<and> p \<le> 1)
         \<and> Ftest fdtr 120 50 100 48 = Inr (PyFloat (1 - fdtr 2 48 (24 / 5)))
         \<and> (0 < fdtr 2 48 (24 / 5) \<and> fdtr 2 48 (24 / 5) < 1
              \<longrightarrow> 0 < 1 - fdtr 2 48 (24 / 5) \<and> 1 - fdtr 2 48 (24 / 5) < 1)"
proof -
  let ?dd = "real_of_int (dof_1 - dof_2)"
  let ?F = "((chi2_1 - chi2_2) / ?dd) / (chi2_2 / real_of_int dof_2)"
  have dd: "0 < ?dd" using dof by simp
  have d2: "0 < real_of_int dof_2" using dof by simp
  have red: "0 < chi2_2 / real_of_int dof_2" using chi d2 by simp
  have num: "0 < (chi2_1 - chi2_2) / ?dd" using chi dd by simp
  have F: "0 \<le> ?F"
    by (rule divide_nonneg_nonneg [OF less_imp_le [OF num] less_imp_le [OF red]])
  have run: "Ftest fdtr chi2_1 dof_1 chi2_2 dof_2
               = Inr (PyFloat (1 - fdtr ?dd (real_of_int dof_2) ?F))"
    using chi dof red by (simp add: Ftest_def py_truediv_def Let_def)
  have rng: "0 \<le> fdtr ?dd (real_of_int dof_2) ?F \<and> fdtr ?dd (real_of_int dof_2) ?F \<le> 1"
    using cdf [OF dd d2 F] .
  have general: "\<exists>p. Ftest fdtr chi2_1 dof_1 chi2_2 dof_2 = Inr (PyFloat p)
            \<and> p = 1 - fdtr ?dd (real_of_int dof_2) ?F \<and> 0 \<le> p \<and> p \<le> 1"
    using run rng by simp
  have example: "Ftest fdtr 120 50 100 48 = Inr (PyFloat (1 - fdtr 2 48 (24 / 5)))"
    by (simp add: Ftest_def py_truediv_def Let_def)
  have strict: "0 < fdtr 2 48 (24 / 5) \<and> fdtr 2 48 (24 / 5) < 1
           \<longrightarrow> 0 < 1 - fdtr 2 48 (24 / 5) \<and> 1 - fdtr 2 48 (24 / 5) < 1"
    by simp
  from general example strict show ?thesis by blast
qed

theorem Ftest_survival_witness:
  "Ftest (fdtr_closed 24) 120 50 100 48 = Inr (PyFloat ((5 / 6) ^ 24))
     \<and> (0::real) < (5 / 6) ^ 24 \<and> (5 / 6 :: real) ^ 24 < 1"
proof -
  have cdf: "\<And>a b x. 0 < a \<Longrightarrow> 0 < b \<Longrightarrow> 0 \<le> x
               \<Longrightarrow> 0 \<le> fdtr_closed 24 a b x \<and> fdtr_closed 24 a b x \<le> 1"
    by (rule fdtr_closed_range)
  have val: "1 - fdtr_closed 24 2 48 (24 / 5) = (5 / 6) ^ 24"
    by (simp add: fdtr_closed_def)
  have "\<exists>p. Ftest (fdtr_closed 24) 120 50 100 48 = Inr (PyFloat p)
            \<and> p = 1 - fdtr_closed 24 2 48 (24 / 5) \<and> 0 \<le> p \<and> p \<le> 1"
    using Ftest_survival [of "fdtr_closed 24" 100 120 48 50, OF cdf] by simp
  then have run: "Ftest (fdtr_closed 24) 120 50 100 48 = Inr (PyFloat ((5 / 6) ^ 24))"
    using val by auto
  have "(5 / 6 :: real) ^ 24 < 1" by (simp add: power_divide)
  then show ?thesis using run by simp
qed

text \<open>
  Claim C9. \<open>Ftest\<close> is not total: with a lower candidate chi-squared and equal degrees
  of freedom it raises \<^verbatim>\<open>ZeroDivisionError\<close>, so a float is returned only when the
  degrees of freedom differ; \<^verbatim>\<open>epochalyptica\<close> does not call it when they are equal and
  sets the sentinel itself.
\<close>

theorem Ftest_equal_dof_raises:
  "(chi2_2 < chi2_1 \<and> dof_1 = dof_2
      \<longrightarrow> Ftest fdtr chi2_1 dof_1 chi2_2 dof_2 = Inl ZeroDivisionError)
   \<and> (Ftest fdtr chi2_1 dof_1 chi2_2 dof_2 = Inr (PyFloat p) \<longrightarrow> dof_1 \<noteq> dof_2)
   \<and> ftest_decision fdtr ftest_threshold chi2_init ndof chi2 ndof filename epochs_to_drop
       = Inr (PyBool False, epochs_to_drop)"
proof (intro conjI impI)
  assume h: "chi2_2 < chi2_1 \<and> dof_1 = dof_2"
  show "Ftest fdtr chi2_1 dof_1 chi2_2 dof_2 = Inl ZeroDivisionError"
  proof (cases "dof_2 = 0")
    case True
    then show ?thesis using h by (simp add: Ftest_def py_truediv_def)
  next
    case False
    then show ?thesis using h by (simp add: Ftest_def py_truediv_def)
  qed
next
  assume r: "Ftest fdtr chi2_1 dof_1 chi2_2 dof_2 = Inr (PyFloat p)"
  show "dof_1 \<noteq> dof_2"
  proof
    assume e: "dof_1 = dof_2"
    show False
    proof (cases "chi2_2 < chi2_1")
      case True
      then show ?thesis using r e
        by (cases "dof_2 = 0") (simp_all add: Ftest_def py_truediv_def)
    next
      case False
      then show ?thesis using r by (simp add: Ftest_def)
    qed
  qed
next
  show "ftest_decision fdtr ftest_threshold chi2_init ndof chi2 ndof filename epochs_to_drop
          = Inr (PyBool False, epochs_to_drop)"
    by (simp add: ftest_decision_def)
qed

theorem Ftest_equal_dof_raises_witness:
  "(100::real) < 120 \<and> Ftest (fdtr_closed 24) 120 48 100 48 = Inl ZeroDivisionError
   \<and> ftest_decision (fdtr_closed 24) (1 / 1000000) 120 48 100 48 ''a.ff'' ([] :: string list)
       = Inr (PyBool False, [])"
  using Ftest_equal_dof_raises
          [of 100 120 48 48 "fdtr_closed 24" 0 "1 / 1000000" 120 48 100 "''a.ff''" "[]"]
  by simp

text \<open>
  For a float returned by \<open>Ftest\<close> the decision is the comparison of the claim: the epoch
  is appended exactly when the value is below the threshold.
\<close>

lemma ftest_decision_float:
  assumes "ndof_init \<noteq> ndof"
    and "Ftest fdtr chi2_init ndof_init chi2 ndof = Inr (PyFloat x)"
  shows "ftest_decision fdtr ftest_threshold chi2_init ndof_init chi2 ndof filename epochs_to_drop
           = Inr (PyFloat x,
                  if x < ftest_threshold then epochs_to_drop @ [filename] else epochs_to_drop)"
  using assms by (simp add: ftest_decision_def py_less_def)

section \<open>Properties of the window search\<close>

lemma window_getattr:
  "window dmxc i = Some (lo, hi)
     \<Longrightarrow> getattr dmxc (DMXR1 i) = Inr lo \<and> getattr dmxc (DMXR2 i) = Inr hi"
  by (auto simp: getattr_def window_def split: option.splits)

lemma getattr_window:
  "getattr dmxc (DMXR1 i) = Inr lo \<Longrightarrow> getattr dmxc (DMXR2 i) = Inr hi
     \<Longrightarrow> window dmxc i = Some (lo, hi)"
  by (auto simp: getattr_def window_def split: option.splits)

lemma dmx_search_step:
  "getattr dmxc (DMXR1 i) = Inr l \<Longrightarrow> getattr dmxc (DMXR2 i) = Inr u
     \<Longrightarrow> dmx_search dmxc toaval i
           = (if toaval > l \<and> toaval < u then Inr (i, l, u)
              else dmx_search dmxc toaval (i + 1))"
  by (subst dmx_search.simps) simp

text \<open>
  A search that returns has found a window that strictly contains the time, and every
  index it passed had a window that does not.
\<close>

lemma dmx_search_found:
  "dmx_search dmxc toaval i = Inr (k, lo, hi)
     \<Longrightarrow> i \<le> k \<and> window dmxc k = Some (lo, hi) \<and> lo < toaval \<and> toaval < hi
         \<and> (\<forall>j. i \<le> j \<and> j < k
                \<longrightarrow> window dmxc j \<noteq> None \<and> \<not> inside toaval (window dmxc j))"
proof (induction dmxc toaval i rule: dmx_search.induct)
  case (1 dmxc toaval i)
  from "1.prems" obtain l u where
    l: "getattr dmxc (DMXR1 i) = Inr l" and u: "getattr dmxc (DMXR2 i) = Inr u"
    by (subst (asm) dmx_search.simps) (auto split: sum.splits)
  have w: "window dmxc i = Some (l, u)" using l u by (rule getattr_window)
  show ?case
  proof (cases "toaval > l \<and> toaval < u")
    case True
    then have "dmx_search dmxc toaval i = Inr (i, l, u)"
      using dmx_search_step [OF l u, of toaval] by auto
    then show ?thesis using "1.prems" w True by auto
  next
    case False
    then have step: "dmx_search dmxc toaval i = dmx_search dmxc toaval (i + 1)"
      using dmx_search_step [OF l u, of toaval] by auto
    then have rec: "dmx_search dmxc toaval (i + 1) = Inr (k, lo, hi)"
      using "1.prems" by simp
    have ih: "i + 1 \<le> k \<and> window dmxc k = Some (lo, hi) \<and> lo < toaval \<and> toaval < hi
         \<and> (\<forall>j. i + 1 \<le> j \<and> j < k
                \<longrightarrow> window dmxc j \<noteq> None \<and> \<not> inside toaval (window dmxc j))"
      using "1.IH" [OF l u False rec] .
    have here: "window dmxc i \<noteq> None \<and> \<not> inside toaval (window dmxc i)"
      using w False by (simp add: inside_def)
    show ?thesis
    proof (intro conjI allI impI)
      show "i \<le> k" using ih by simp
      show "window dmxc k = Some (lo, hi)" using ih by simp
      show "lo < toaval" using ih by simp
      show "toaval < hi" using ih by simp
    next
      fix j assume j: "i \<le> j \<and> j < k"
      show "window dmxc j \<noteq> None"
      proof (cases "j = i")
        case True
        then show ?thesis using here by simp
      next
        case False
        then show ?thesis using ih j by simp
      qed
      show "\<not> inside toaval (window dmxc j)"
      proof (cases "j = i")
        case True
        then show ?thesis using here by simp
      next
        case False
        then have "i + 1 \<le> j" using j by simp
        then show ?thesis using ih j by blast
      qed
    qed
  qed
qed

lemma dmx_search_outside:
  "\<forall>j. \<not> inside toaval (window dmxc j) \<Longrightarrow> dmx_search dmxc toaval i = Inl AttributeError"
proof (induction dmxc toaval i rule: dmx_search.induct)
  case (1 dmxc toaval i)
  show ?case
  proof (cases "window dmxc i")
    case None
    then show ?thesis
      by (subst dmx_search.simps) (auto simp: getattr_def window_def split: option.splits)
  next
    case (Some w)
    obtain l u where w: "w = (l, u)" by (cases w)
    have l: "getattr dmxc (DMXR1 i) = Inr l" and u: "getattr dmxc (DMXR2 i) = Inr u"
      using window_getattr [of dmxc i l u] Some w by simp_all
    have "\<not> inside toaval (window dmxc i)" using "1.prems" by blast
    then have no: "\<not> (toaval > l \<and> toaval < u)"
      using Some w by (simp add: inside_def)
    have "dmx_search dmxc toaval i = dmx_search dmxc toaval (i + 1)"
      using dmx_search_step [OF l u, of toaval] no by auto
    also have "\<dots> = Inl AttributeError" using "1.IH" [OF l u no "1.prems"] .
    finally show ?thesis .
  qed
qed

lemma dmx_search_contiguous:
  "i \<le> n \<Longrightarrow> \<forall>j. i \<le> j \<and> j \<le> n \<longrightarrow> window dmxc j \<noteq> None
     \<Longrightarrow> inside toaval (window dmxc n)
     \<Longrightarrow> \<exists>k lo hi. k \<le> n \<and> dmx_search dmxc toaval i = Inr (k, lo, hi)"
proof (induction dmxc toaval i rule: dmx_search.induct)
  case (1 dmxc toaval i)
  from "1.prems" have "window dmxc i \<noteq> None" by simp
  then obtain l u where w: "window dmxc i = Some (l, u)" by auto
  have l: "getattr dmxc (DMXR1 i) = Inr l" and u: "getattr dmxc (DMXR2 i) = Inr u"
    using window_getattr [OF w] by simp_all
  show ?case
  proof (cases "toaval > l \<and> toaval < u")
    case True
    then have "dmx_search dmxc toaval i = Inr (i, l, u)"
      using dmx_search_step [OF l u, of toaval] by auto
    then show ?thesis using "1.prems" by blast
  next
    case False
    have "i \<noteq> n" using False w "1.prems"(3) by (auto simp: inside_def)
    then have lt: "i + 1 \<le> n" using "1.prems"(1) by simp
    have all: "\<forall>j. i + 1 \<le> j \<and> j \<le> n \<longrightarrow> window dmxc j \<noteq> None"
      using "1.prems"(2) by simp
    have step: "dmx_search dmxc toaval i = dmx_search dmxc toaval (i + 1)"
      using dmx_search_step [OF l u, of toaval] False by auto
    from "1.IH" [OF l u False lt all "1.prems"(3)] step show ?thesis by simp
  qed
qed

text \<open>
  Claim C10, as stated, fails where the indices of the component have a gap: window 3 of
  \<open>gapped\<close> strictly contains the time 25, and the search, which starts at index 1 and
  steps by one, raises \<^verbatim>\<open>AttributeError\<close> at the missing index 2.
\<close>

theorem dmx_search_gap_counterexample:
  "inside 25 (window gapped 3) \<and> dmx_search gapped 25 1 = Inl AttributeError"
  by (simp add: gapped_def window_def inside_def dmx_search.simps getattr_def)

text \<open>
  Claim C10, amended. The search started at index 1 returns only with a window that
  strictly contains the epoch's first TOA. When some window \<open>n\<close> strictly contains it and
  every index from 1 to \<open>n\<close> has a window, the search returns the first such window and
  no lookup fails. When no window strictly contains it (a TOA on a window boundary, for
  one), the search runs past the windows and raises \<^verbatim>\<open>AttributeError\<close>.
\<close>

theorem dmx_search_outcome:
  "(dmx_search dmxc toaval 1 = Inr (k, lo, hi)
      \<longrightarrow> 1 \<le> k \<and> window dmxc k = Some (lo, hi) \<and> inside toaval (window dmxc k)
          \<and> (\<forall>j. 1 \<le> j \<and> j < k \<longrightarrow> \<not> inside toaval (window dmxc j)))
   \<and> (1 \<le> n \<and> (\<forall>j. 1 \<le> j \<and> j \<le> n \<longrightarrow> window dmxc j \<noteq> None)
        \<and> inside toaval (window dmxc n)
      \<longrightarrow> (\<exists>k' lo' hi'. k' \<le> n \<and> dmx_search dmxc toaval 1 = Inr (k', lo', hi')))
   \<and> ((\<forall>j. \<not> inside toaval (window dmxc j))
      \<longrightarrow> dmx_search dmxc toaval 1 = Inl AttributeError)"
proof -
  have a: "1 \<le> k \<and> window dmxc k = Some (lo, hi) \<and> inside toaval (window dmxc k)
          \<and> (\<forall>j. 1 \<le> j \<and> j < k \<longrightarrow> \<not> inside toaval (window dmxc j))"
    if r: "dmx_search dmxc toaval 1 = Inr (k, lo, hi)"
    using dmx_search_found [OF r] by (simp add: inside_def)
  have b: "\<exists>k' lo' hi'. k' \<le> n \<and> dmx_search dmxc toaval 1 = Inr (k', lo', hi')"
    if h: "1 \<le> n \<and> (\<forall>j. 1 \<le> j \<and> j \<le> n \<longrightarrow> window dmxc j \<noteq> None)
        \<and> inside toaval (window dmxc n)"
    using dmx_search_contiguous [of 1 n dmxc toaval] h by blast
  have c: "dmx_search dmxc toaval 1 = Inl AttributeError"
    if "\<forall>j. \<not> inside toaval (window dmxc j)"
    using that by (rule dmx_search_outside)
  from a b c show ?thesis by blast
qed

theorem dmx_search_outcome_witness:
  "dmx_search two_windows 15 1 = Inr (2, 10, 20)
   \<and> inside 15 (window two_windows 2)
   \<and> (\<exists>k' lo' hi'. k' \<le> 2 \<and> dmx_search two_windows 15 1 = Inr (k', lo', hi'))
   \<and> dmx_search two_windows 10 1 = Inl AttributeError"
proof -
  have run: "dmx_search two_windows 15 1 = Inr (2, 10, 20)"
    by (simp add: two_windows_def dmx_search.simps getattr_def)
  have all: "\<forall>j. 1 \<le> j \<and> j \<le> 2 \<longrightarrow> window two_windows j \<noteq> None"
  proof (intro allI impI)
    fix j :: nat assume "1 \<le> j \<and> j \<le> 2"
    then have "j = 1 \<or> j = 2" by auto
    then show "window two_windows j \<noteq> None"
      by (auto simp: two_windows_def window_def)
  qed
  have ins: "inside 15 (window two_windows 2)"
    by (simp add: two_windows_def window_def inside_def)
  have out: "\<forall>j. \<not> inside 10 (window two_windows j)"
    by (auto simp: two_windows_def window_def inside_def split: option.splits if_splits)
  note t1 = dmx_search_outcome [of two_windows 15 2 10 20 2]
  note t2 = dmx_search_outcome [of two_windows 10 0 0 0 0]
  from t1 run all ins t2 out show ?thesis by simp
qed

section \<open>Properties of the scan and of one epoch\<close>

lemma unselect_select: "unselect (select T selectarray) = T"
  by (simp add: select_def unselect_def)

lemma select_table: "table (select T selectarray) = map fst (filter snd (zip (table T) selectarray))"
  by (simp add: select_def)

lemma zip_mask_filter: "map fst (filter snd (zip xs (map P xs))) = filter P xs"
  by (induction xs) auto

lemma scan_row_cases:
  assumes "scan_row dmxc filename idx t s = Inr s1"
  shows "toa_name t \<noteq> None"
    and "toa_name t \<noteq> filename \<Longrightarrow> s1 = s"
    and "toa_name t = filename \<Longrightarrow>
           idx < length (s_maskarray s) \<and> s_maskarray s1 = (s_maskarray s)[idx := False]
           \<and> t_error t \<noteq> 0 \<and> s_sum s1 = s_sum s + 1 / (t_error t) ^ 2"
  using assms
  by (auto simp: scan_row_def toa_name_def set_receiver_def set_mjd_def set_toaval_def
        add_weight_def py_truediv_def Let_def
      split: option.splits sum.splits if_splits prod.splits)

lemma scan_row_first:
  assumes "scan_row dmxc filename idx t s = Inr s1" "toa_name t = filename" "unset s"
  shows "found_by dmxc t s1"
  using assms
  by (auto simp: scan_row_def toa_name_def set_receiver_def set_mjd_def set_toaval_def
        add_weight_def py_truediv_def Let_def unset_def found_by_def
      split: option.splits sum.splits if_splits prod.splits)

lemma scan_row_keeps:
  assumes "scan_row dmxc filename idx t s = Inr s1" "found_by dmxc t0 s"
  shows "found_by dmxc t0 s1"
  using assms
  by (auto simp: scan_row_def toa_name_def set_receiver_def set_mjd_def set_toaval_def
        add_weight_def py_truediv_def Let_def found_by_def
      split: option.splits sum.splits if_splits prod.splits)

lemma scan_rows_keeps:
  "scan_rows dmxc filename idx rows s = Inr s' \<Longrightarrow> found_by dmxc t0 s \<Longrightarrow> found_by dmxc t0 s'"
proof (induction rows arbitrary: idx s)
  case Nil
  then show ?case by simp
next
  case (Cons t ts)
  from Cons.prems(1) obtain s1 where
    r: "scan_row dmxc filename idx t s = Inr s1" and
    rest: "scan_rows dmxc filename (Suc idx) ts s1 = Inr s'"
    by (auto split: sum.splits)
  have "found_by dmxc t0 s1" using scan_row_keeps [OF r Cons.prems(2)] .
  then show ?case using Cons.IH [OF rest] by simp
qed

lemma scan_rows_first:
  "scan_rows dmxc filename idx rows s = Inr s' \<Longrightarrow> unset s \<Longrightarrow>
     (case find (\<lambda>t. toa_name t = filename) rows of
        None \<Rightarrow> s' = s
      | Some t0 \<Rightarrow> found_by dmxc t0 s')"
proof (induction rows arbitrary: idx s)
  case Nil
  then show ?case by simp
next
  case (Cons t ts)
  from Cons.prems(1) obtain s1 where
    r: "scan_row dmxc filename idx t s = Inr s1" and
    rest: "scan_rows dmxc filename (Suc idx) ts s1 = Inr s'"
    by (auto split: sum.splits)
  show ?case
  proof (cases "toa_name t = filename")
    case True
    have "found_by dmxc t s1" using scan_row_first [OF r True Cons.prems(2)] .
    then have "found_by dmxc t s'" using scan_rows_keeps [OF rest] by simp
    then show ?thesis using True by simp
  next
    case False
    then have "s1 = s" using scan_row_cases(2) [OF r] by simp
    then show ?thesis using Cons.IH [OF _ Cons.prems(2), of "Suc idx"] rest False by simp
  qed
qed

lemma scan_rows_names:
  "scan_rows dmxc filename idx rows s = Inr s' \<Longrightarrow> \<forall>t \<in> set rows. toa_name t \<noteq> None"
proof (induction rows arbitrary: idx s)
  case Nil
  then show ?case by simp
next
  case (Cons t ts)
  from Cons.prems(1) obtain s1 where
    r: "scan_row dmxc filename idx t s = Inr s1" and
    rest: "scan_rows dmxc filename (Suc idx) ts s1 = Inr s'"
    by (auto split: sum.splits)
  show ?case using scan_row_cases(1) [OF r] Cons.IH [OF rest] by simp
qed

lemma scan_rows_sum:
  "scan_rows dmxc filename idx rows s = Inr s'
     \<Longrightarrow> s_sum s' = s_sum s + weight_sum (epoch_rows filename rows)
         \<and> (\<forall>t \<in> set (epoch_rows filename rows). t_error t \<noteq> 0)"
proof (induction rows arbitrary: idx s)
  case Nil
  then show ?case by (simp add: weight_sum_def epoch_rows_def)
next
  case (Cons t ts)
  from Cons.prems(1) obtain s1 where
    r: "scan_row dmxc filename idx t s = Inr s1" and
    rest: "scan_rows dmxc filename (Suc idx) ts s1 = Inr s'"
    by (auto split: sum.splits)
  note ih = Cons.IH [OF rest]
  show ?case
  proof (cases "toa_name t = filename")
    case True
    then show ?thesis using scan_row_cases(3) [OF r True] ih
      by (simp add: weight_sum_def epoch_rows_def)
  next
    case False
    then show ?thesis using scan_row_cases(2) [OF r False] ih
      by (simp add: weight_sum_def epoch_rows_def)
  qed
qed

lemma scan_rows_mask:
  "scan_rows dmxc filename idx rows s = Inr s'
     \<Longrightarrow> length (s_maskarray s') = length (s_maskarray s)
         \<and> (\<forall>j < length (s_maskarray s).
               s_maskarray s' ! j
                 = (s_maskarray s ! j
                    \<and> \<not> (idx \<le> j \<and> j < idx + length rows \<and> toa_name (rows ! (j - idx)) = filename)))"
proof (induction rows arbitrary: idx s)
  case Nil
  then show ?case by simp
next
  case (Cons t ts)
  from Cons.prems(1) obtain s1 where
    r: "scan_row dmxc filename idx t s = Inr s1" and
    rest: "scan_rows dmxc filename (Suc idx) ts s1 = Inr s'"
    by (auto split: sum.splits)
  note ih = Cons.IH [OF rest]
  have m1: "length (s_maskarray s1) = length (s_maskarray s)
            \<and> (\<forall>j < length (s_maskarray s).
                  s_maskarray s1 ! j = (s_maskarray s ! j \<and> \<not> (j = idx \<and> toa_name t = filename)))"
  proof (cases "toa_name t = filename")
    case True
    then show ?thesis using scan_row_cases(3) [OF r True] by (auto simp: nth_list_update)
  next
    case False
    then show ?thesis using scan_row_cases(2) [OF r False] by simp
  qed
  show ?case
  proof (intro conjI allI impI)
    show "length (s_maskarray s') = length (s_maskarray s)" using ih m1 by simp
  next
    fix j assume j: "j < length (s_maskarray s)"
    have a: "s_maskarray s' ! j
               = (s_maskarray s1 ! j
                  \<and> \<not> (Suc idx \<le> j \<and> j < Suc idx + length ts \<and> toa_name (ts ! (j - Suc idx)) = filename))"
      using ih j m1 by simp
    have b: "s_maskarray s1 ! j = (s_maskarray s ! j \<and> \<not> (j = idx \<and> toa_name t = filename))"
      using m1 j by simp
    show "s_maskarray s' ! j
            = (s_maskarray s ! j
               \<and> \<not> (idx \<le> j \<and> j < idx + length (t # ts) \<and> toa_name ((t # ts) ! (j - idx)) = filename))"
    proof (cases "j = idx")
      case True
      then show ?thesis using a b by simp
    next
      case False
      show ?thesis
      proof (cases "idx < j")
        case True
        then have "(t # ts) ! (j - idx) = ts ! (j - Suc idx)"
          by (simp add: nth_Cons')
        then show ?thesis using a b True by auto
      next
        case False
        then show ?thesis using a b \<open>j \<noteq> idx\<close> by auto
      qed
    qed
  qed
qed

lemma scan_rows_mask_init:
  assumes "scan_rows dmxc filename 0 rows (scan_init n) = Inr s'" "length (s_maskarray s') = length rows"
  shows "s_maskarray s' = map (\<lambda>t. toa_name t \<noteq> filename) rows"
proof (rule nth_equalityI)
  show "length (s_maskarray s') = length (map (\<lambda>t. toa_name t \<noteq> filename) rows)"
    using assms(2) by simp
next
  fix j assume j: "j < length (s_maskarray s')"
  note m = scan_rows_mask [OF assms(1)]
  have n: "n = length rows" using m assms(2) by (simp add: scan_init_def)
  have "s_maskarray s' ! j = (toa_name (rows ! j) \<noteq> filename)"
    using m j n assms(2) by (simp add: scan_init_def)
  then show "s_maskarray s' ! j = map (\<lambda>t. toa_name t \<noteq> filename) rows ! j"
    using j assms(2) by simp
qed

lemma count_in_dmxrange_eq:
  "count_in_dmxrange rows (Some lo) (Some hi) n
     = Inr (n + length (filter (\<lambda>t. lo < t_mjd_float t \<and> t_mjd_float t < hi) rows))"
  by (induction rows arbitrary: n) auto

lemma count_in_dmxrange_None:
  "count_in_dmxrange rows None hi n = Inr m \<Longrightarrow> rows = []"
  by (cases rows) auto

lemma remove_param_present:
  "map_of dmxc p \<noteq> None \<Longrightarrow> remove_param dmxc p = Inr (AList.delete p dmxc)"
  by (simp add: remove_param_def)

lemma remove_dmx_result:
  assumes "remove_dmx h model (Some k) = Inr (h1, newmodel)" "model < length h"
  shows "newmodel = length h \<and> h1 = h @ [remove_window k (h ! model)]"
  using assms
  by (auto simp: remove_dmx_def deepcopy_def remove_param_def remove_window_def nth_append
      split: if_splits)

lemma remove_dmx_None: "remove_dmx h model None = Inl ValueError"
  by (simp add: remove_dmx_def deepcopy_def)

lemma epoch_iter_outcome:
  assumes r: "epoch_iter X thr chi2_init ndof_init ntoas_init model filenames st filename = Inr st'"
    and m: "model < length (st_store st)"
  shows "\<exists>t0 k lo hi ftest.
      find (\<lambda>t. toa_name t = filename) (table (st_toas st)) = Some t0
    \<and> dmx_search (st_store st ! model) (t_mjd_float t0) 1 = Inr (k, lo, hi)
    \<and> st_toas st' = st_toas st
    \<and> st_store st' =
        (if no_toa_inside lo hi (other_rows filename (table (st_toas st)))
         then st_store st @ [remove_window k (st_store st ! model)] else st_store st)
    \<and> ftest_decision (special_fdtr X) thr chi2_init ndof_init
         (fit_toas X (fitted_model (st_store st ! model) k lo hi (other_rows filename (table (st_toas st))))
            (other_rows filename (table (st_toas st))))
         (residuals_dof X (fitted_model (st_store st ! model) k lo hi (other_rows filename (table (st_toas st))))
            (other_rows filename (table (st_toas st))))
         filename (st_epochs_to_drop st) = Inr (ftest, st_epochs_to_drop st')
    \<and> st_fout st' = st_fout st @
         [\<lparr>l_filename = filename, l_receiver = map_of (t_flags t0) ''f'',
           l_mjd = py_int (t_mjd t0),
           l_toas_removed = int ntoas_init - int (length (other_rows filename (table (st_toas st)))),
           l_ftest = py_format_e ftest,
           l_uncertainty = 1 / sqrt (weight_sum (epoch_rows filename (table (st_toas st))))\<rparr>]
    \<and> st_trace st' = st_trace st @
         (if no_toa_inside lo hi (other_rows filename (table (st_toas st)))
          then [LogDebug (Some k)] else []) @
         [GLSFit (fitted_model (st_store st ! model) k lo hi (other_rows filename (table (st_toas st))))
            (other_rows filename (table (st_toas st)))]"
proof -
  let ?dmxc = "st_store st ! model"
  let ?rows = "table (st_toas st)"
  let ?rem = "other_rows filename ?rows"
  from r obtain s where
    scan: "scan_rows ?dmxc filename 0 ?rows (scan_init (length filenames)) = Inr s"
    by (auto simp: epoch_iter_def split: sum.splits)
  have len: "length (s_maskarray s) = length ?rows"
    using r scan by (auto simp: epoch_iter_def split: if_splits)
  have mask: "s_maskarray s = map (\<lambda>t. toa_name t \<noteq> filename) ?rows"
    using scan_rows_mask_init [OF scan len] .
  have tbl: "table (select (st_toas st) (s_maskarray s)) = ?rem"
    by (simp add: select_table mask zip_mask_filter other_rows_def)
  from r scan len obtain n where
    cnt: "count_in_dmxrange ?rem (s_dmxlower s) (s_dmxupper s) 0 = Inr n"
    by (auto simp: epoch_iter_def Let_def tbl split: sum.splits)
  from r scan len cnt obtain h1 newmodel where
    rm: "(if n = 0 then remove_dmx (st_store st) model (s_dmxindex s)
          else Inr (st_store st, model)) = Inr (h1, newmodel)"
    by (auto simp: epoch_iter_def Let_def tbl split: sum.splits)
  from r scan len cnt rm obtain ftest drops where
    dec: "ftest_decision (special_fdtr X) thr chi2_init ndof_init
            (fit_toas X (h1 ! newmodel) ?rem) (residuals_dof X (h1 ! newmodel) ?rem)
            filename (st_epochs_to_drop st) = Inr (ftest, drops)"
    by (auto simp: epoch_iter_def Let_def tbl split: sum.splits)
  from r scan len cnt rm dec obtain mj where
    mjd: "s_mjd s = Some mj"
    by (auto simp: epoch_iter_def Let_def tbl split: option.splits)
  have st': "st' = \<lparr>st_toas = st_toas st, st_store = h1, st_epochs_to_drop = drops,
                    st_fout = st_fout st @
                      [\<lparr>l_filename = filename, l_receiver = s_receiver s, l_mjd = mj,
                        l_toas_removed = int ntoas_init - int (length ?rem),
                        l_ftest = py_format_e ftest,
                        l_uncertainty = 1 / sqrt (s_sum s)\<rparr>],
                    st_trace = st_trace st @
                      (if n = 0 then [LogDebug (s_dmxindex s)] else []) @
                      [GLSFit (h1 ! newmodel) ?rem]\<rparr>"
    using r scan len cnt rm dec mjd
    by (simp add: epoch_iter_def Let_def tbl unselect_select)
  have "unset (scan_init (length filenames))" by (simp add: unset_def scan_init_def)
  note first = scan_rows_first [OF scan this]
  obtain t0 where t0: "find (\<lambda>t. toa_name t = filename) ?rows = Some t0"
  proof (cases "find (\<lambda>t. toa_name t = filename) ?rows")
    case None
    then have "s = scan_init (length filenames)" using first by simp
    then have "s_mjd s = None" by (simp add: scan_init_def)
    then show ?thesis using mjd by simp
  next
    case (Some t)
    then show ?thesis using that by simp
  qed
  have fb: "found_by ?dmxc t0 s" using first t0 by simp
  then obtain k lo hi where
    srch: "dmx_search ?dmxc (t_mjd_float t0) 1 = Inr (k, lo, hi)" and
    idx: "s_dmxindex s = Some k" and lo: "s_dmxlower s = Some lo" and hi: "s_dmxupper s = Some hi"
    by (auto simp: found_by_def)
  have rcv: "s_receiver s = map_of (t_flags t0) ''f''" using fb by (simp add: found_by_def)
  have mj: "mj = py_int (t_mjd t0)" using fb mjd by (simp add: found_by_def)
  have sm: "s_sum s = weight_sum (epoch_rows filename ?rows)"
    using scan_rows_sum [OF scan] by (simp add: scan_init_def)
  have n: "n = length (filter (\<lambda>t. lo < t_mjd_float t \<and> t_mjd_float t < hi) ?rem)"
    using cnt by (simp add: lo hi count_in_dmxrange_eq)
  have n0: "(n = 0) = no_toa_inside lo hi ?rem"
    using n by (simp add: no_toa_inside_def)
  have store: "h1 = (if no_toa_inside lo hi ?rem then st_store st @ [remove_window k ?dmxc]
                     else st_store st)
               \<and> h1 ! newmodel = fitted_model ?dmxc k lo hi ?rem"
  proof (cases "n = 0")
    case True
    then have "remove_dmx (st_store st) model (Some k) = Inr (h1, newmodel)"
      using rm idx by simp
    from remove_dmx_result [OF this m] show ?thesis
      using True n0 by (simp add: fitted_model_def)
  next
    case False
    then show ?thesis using rm n0 by (simp add: fitted_model_def)
  qed
  have h1eq: "h1 = (if no_toa_inside lo hi ?rem then st_store st @ [remove_window k ?dmxc]
                     else st_store st)"
    using store by (rule conjunct1)
  have fit: "h1 ! newmodel = fitted_model ?dmxc k lo hi ?rem"
    using store by (rule conjunct2)
  have dr: "st_epochs_to_drop st' = drops" by (subst st') simp
  have c1: "st_toas st' = st_toas st" by (subst st') simp
  have c2: "st_store st' = (if no_toa_inside lo hi ?rem
              then st_store st @ [remove_window k ?dmxc] else st_store st)"
    by (subst st') (simp add: h1eq)
  have c3: "ftest_decision (special_fdtr X) thr chi2_init ndof_init
            (fit_toas X (fitted_model ?dmxc k lo hi ?rem) ?rem)
            (residuals_dof X (fitted_model ?dmxc k lo hi ?rem) ?rem)
            filename (st_epochs_to_drop st) = Inr (ftest, st_epochs_to_drop st')"
    using dec by (simp only: fit dr)
  have c4: "st_fout st' = st_fout st @
         [\<lparr>l_filename = filename, l_receiver = map_of (t_flags t0) ''f'',
           l_mjd = py_int (t_mjd t0),
           l_toas_removed = int ntoas_init - int (length ?rem),
           l_ftest = py_format_e ftest,
           l_uncertainty = 1 / sqrt (weight_sum (epoch_rows filename ?rows))\<rparr>]"
    by (subst st') (simp add: rcv mj sm)
  have c5: "st_trace st' = st_trace st @
         (if no_toa_inside lo hi ?rem then [LogDebug (Some k)] else []) @
         [GLSFit (fitted_model ?dmxc k lo hi ?rem) ?rem]"
    by (subst st') (simp add: n0 idx fit)
  from t0 srch c1 c2 c3 c4 c5 show ?thesis by blast
qed

lemma epoch_iter_restores:
  assumes "epoch_iter X thr chi2_init ndof_init ntoas_init model filenames st filename = Inr st'"
    and "model < length (st_store st)"
  shows "st_toas st' = st_toas st \<and> st_store st' ! model = st_store st ! model
         \<and> model < length (st_store st')"
proof -
  from epoch_iter_outcome [OF assms] obtain k lo hi where
    t: "st_toas st' = st_toas st" and
    s: "st_store st' =
        (if no_toa_inside lo hi (other_rows filename (table (st_toas st)))
         then st_store st @ [remove_window k (st_store st ! model)] else st_store st)"
    by blast
  show ?thesis using t s assms(2) by (simp add: nth_append)
qed

lemma epoch_loop_append:
  "epoch_loop X thr chi2_init ndof_init ntoas_init model filenames st (xs @ ys)
     = (case epoch_loop X thr chi2_init ndof_init ntoas_init model filenames st xs of
          Inl e \<Rightarrow> Inl e
        | Inr mid \<Rightarrow> epoch_loop X thr chi2_init ndof_init ntoas_init model filenames mid ys)"
  by (induction xs arbitrary: st) (auto split: sum.splits)

lemma epoch_loop_restores:
  "epoch_loop X thr chi2_init ndof_init ntoas_init model filenames st fns = Inr st'
     \<Longrightarrow> model < length (st_store st)
     \<Longrightarrow> st_toas st' = st_toas st \<and> st_store st' ! model = st_store st ! model
         \<and> model < length (st_store st')"
proof (induction fns arbitrary: st)
  case Nil
  then show ?case by simp
next
  case (Cons fn fns)
  from Cons.prems(1) obtain mid where
    it: "epoch_iter X thr chi2_init ndof_init ntoas_init model filenames st fn = Inr mid" and
    rest: "epoch_loop X thr chi2_init ndof_init ntoas_init model filenames mid fns = Inr st'"
    by (auto split: sum.splits)
  note a = epoch_iter_restores [OF it Cons.prems(2)]
  from a have "model < length (st_store mid)" by simp
  from Cons.IH [OF rest this] a show ?case by simp
qed

lemma ftest_decision_value:
  "ftest_decision fdtr thr chi2_init ndof_init chi2 ndof filename drops = Inr (ftest, drops')
     \<Longrightarrow> ftest_value fdtr chi2_init ndof_init chi2 ndof = Inr ftest"
  by (auto simp: ftest_decision_def ftest_value_def split: if_splits sum.splits)

lemma epoch_iter_line:
  assumes r: "epoch_iter X thr chi2_init ndof_init ntoas_init model filenames st filename = Inr st'"
    and m: "model < length (st_store st)"
  shows "\<exists>line. st_fout st' = st_fout st @ [line]
           \<and> expected_line X chi2_init ndof_init ntoas_init (st_store st ! model)
                (table (st_toas st)) filename = Some line"
proof -
  from epoch_iter_outcome [OF r m] obtain t0 k lo hi ftest where
    f: "find (\<lambda>t. toa_name t = filename) (table (st_toas st)) = Some t0" and
    d: "dmx_search (st_store st ! model) (t_mjd_float t0) 1 = Inr (k, lo, hi)" and
    dec: "ftest_decision (special_fdtr X) thr chi2_init ndof_init
         (fit_toas X (fitted_model (st_store st ! model) k lo hi (other_rows filename (table (st_toas st))))
            (other_rows filename (table (st_toas st))))
         (residuals_dof X (fitted_model (st_store st ! model) k lo hi (other_rows filename (table (st_toas st))))
            (other_rows filename (table (st_toas st))))
         filename (st_epochs_to_drop st) = Inr (ftest, st_epochs_to_drop st')" and
    l: "st_fout st' = st_fout st @
         [\<lparr>l_filename = filename, l_receiver = map_of (t_flags t0) ''f'',
           l_mjd = py_int (t_mjd t0),
           l_toas_removed = int ntoas_init - int (length (other_rows filename (table (st_toas st)))),
           l_ftest = py_format_e ftest,
           l_uncertainty = 1 / sqrt (weight_sum (epoch_rows filename (table (st_toas st))))\<rparr>]"
    by blast
  note v = ftest_decision_value [OF dec]
  show ?thesis using f d v l by (simp add: expected_line_def Let_def)
qed

lemma epoch_loop_lines:
  "epoch_loop X thr chi2_init ndof_init ntoas_init model filenames st fns = Inr st'
     \<Longrightarrow> model < length (st_store st)
     \<Longrightarrow> map Some (st_fout st')
           = map Some (st_fout st)
             @ map (expected_line X chi2_init ndof_init ntoas_init (st_store st ! model)
                      (table (st_toas st))) fns"
proof (induction fns arbitrary: st)
  case Nil
  then show ?case by simp
next
  case (Cons fn fns)
  from Cons.prems(1) obtain mid where
    it: "epoch_iter X thr chi2_init ndof_init ntoas_init model filenames st fn = Inr mid" and
    rest: "epoch_loop X thr chi2_init ndof_init ntoas_init model filenames mid fns = Inr st'"
    by (auto split: sum.splits)
  note a = epoch_iter_restores [OF it Cons.prems(2)]
  from a have mm: "model < length (st_store mid)" by simp
  from epoch_iter_line [OF it Cons.prems(2)] obtain line where
    line: "st_fout mid = st_fout st @ [line]" and
    ex: "expected_line X chi2_init ndof_init ntoas_init (st_store st ! model)
                (table (st_toas st)) fn = Some line"
    by blast
  from Cons.IH [OF rest mm] a line ex show ?case by simp
qed

section \<open>Properties of the excision loop\<close>

lemmas model_defs = epoch_iter_def scan_row_def set_receiver_def set_mjd_def set_toaval_def
  add_weight_def select_def unselect_def remove_dmx_def deepcopy_def remove_param_def
  ftest_decision_def Ftest_def py_truediv_def py_less_def py_format_e_def py_int_def getattr_def
  dmx_search.simps scan_init_def get_flag_value_def
lemmas example_defs = two_windows_def row_def rows3_def toas3_def ext_def tc0_def st3_def
  fdtr_closed_def

lemma remove_window_map_of:
  "map_of (remove_window k dmxc) p
     = (if p = DMXR1 k \<or> p = DMXR2 k \<or> p = DMX k then None else map_of dmxc p)"
  by (auto simp: remove_window_def AList.delete_conv)

text \<open>
  Claim C4. Take any point of the loop: the epochs \<open>before\<close> have been processed and
  \<open>filename\<close> is next. The TOA container at the start of that iteration is the one the
  loop started with (the same table, so the same number of TOAs and the same flags), and
  the baseline model object has the parameters it started with; the same holds after the
  iteration. \<open>unselect\<close> after \<open>select\<close> gives the container back, and the parameters
  are removed from a copy that the store holds at a new position.
\<close>

theorem epoch_evaluated_on_original:
  assumes run: "epoch_loop X thr chi2_init ndof_init ntoas_init model filenames st
                  (before @ filename # after) = Inr st'"
    and m: "model < length (st_store st)"
  shows "\<exists>mid mid'.
      epoch_loop X thr chi2_init ndof_init ntoas_init model filenames st before = Inr mid
    \<and> st_toas mid = st_toas st
    \<and> length (table (st_toas mid)) = length (table (st_toas st))
    \<and> map t_flags (table (st_toas mid)) = map t_flags (table (st_toas st))
    \<and> st_store mid ! model = st_store st ! model
    \<and> epoch_iter X thr chi2_init ndof_init ntoas_init model filenames mid filename = Inr mid'
    \<and> st_toas mid' = st_toas st
    \<and> st_store mid' ! model = st_store st ! model
    \<and> unselect (select (st_toas st) selectarray) = st_toas st"
proof -
  from run obtain mid where
    b: "epoch_loop X thr chi2_init ndof_init ntoas_init model filenames st before = Inr mid" and
    rest: "epoch_loop X thr chi2_init ndof_init ntoas_init model filenames mid (filename # after)
             = Inr st'"
    by (auto simp: epoch_loop_append split: sum.splits)
  from rest obtain mid' where
    it: "epoch_iter X thr chi2_init ndof_init ntoas_init model filenames mid filename = Inr mid'"
    by (auto split: sum.splits)
  note a = epoch_loop_restores [OF b m]
  from a have mm: "model < length (st_store mid)" by simp
  note c = epoch_iter_restores [OF it mm]
  show ?thesis using b it a c by (simp add: unselect_select)
qed

theorem epoch_evaluated_on_original_witness:
  "\<exists>mid mid'.
      epoch_loop (ext 110) (1 / 1000000) 100 24 3 0 (get_flag_value ''name'' rows3) st3
        [Some (FStr ''a.ff'')] = Inr mid
    \<and> st_toas mid = toas3
    \<and> st_store mid ! 0 = two_windows
    \<and> epoch_iter (ext 110) (1 / 1000000) 100 24 3 0 (get_flag_value ''name'' rows3) mid
        (Some (FStr ''b.ff'')) = Inr mid'
    \<and> st_toas mid' = toas3
    \<and> st_store mid' ! 0 = two_windows"
proof -
  have "\<exists>st'. epoch_loop (ext 110) (1 / 1000000) 100 24 3 0 (get_flag_value ''name'' rows3) st3
          ([Some (FStr ''a.ff'')] @ Some (FStr ''b.ff'') # []) = Inr st'"
    by (simp add: model_defs example_defs)
  then obtain st' where
    run: "epoch_loop (ext 110) (1 / 1000000) 100 24 3 0 (get_flag_value ''name'' rows3) st3
          ([Some (FStr ''a.ff'')] @ Some (FStr ''b.ff'') # []) = Inr st'" ..
  have m: "0 < length (st_store st3)" by (simp add: st3_def)
  have t: "st_toas st3 = toas3" and s: "st_store st3 ! 0 = two_windows"
    by (simp_all add: st3_def)
  from epoch_evaluated_on_original [OF run m, of "[]"] show ?thesis
    unfolding t s by blast
qed

text \<open>
  Claim C5, amended. An iteration that completes has located the first window, by index,
  that strictly contains the first TOA of the epoch. The model handed to the fitter is
  the baseline without \<open>DMXR1\<close>, \<open>DMXR2\<close> and \<open>DMX\<close> of that window exactly when no
  TOA left by the mask lies strictly inside the window; otherwise it is the baseline
  itself. The other TOAs of the epoch are not looked at. The baseline object is unchanged
  either way.
\<close>

theorem dmx_window_removal_rule:
  assumes r: "epoch_iter X thr chi2_init ndof_init ntoas_init model filenames st filename = Inr st'"
    and m: "model < length (st_store st)"
  shows "\<exists>t0 k lo hi pre.
      find (\<lambda>t. toa_name t = filename) (table (st_toas st)) = Some t0
    \<and> dmx_search (st_store st ! model) (t_mjd_float t0) 1 = Inr (k, lo, hi)
    \<and> st_trace st' = pre @
        [GLSFit (if no_toa_inside lo hi (other_rows filename (table (st_toas st)))
                 then remove_window k (st_store st ! model) else st_store st ! model)
           (other_rows filename (table (st_toas st)))]
    \<and> map_of (remove_window k (st_store st ! model)) (DMXR1 k) = None
    \<and> map_of (remove_window k (st_store st ! model)) (DMXR2 k) = None
    \<and> map_of (remove_window k (st_store st ! model)) (DMX k) = None
    \<and> st_store st' ! model = st_store st ! model"
proof -
  from epoch_iter_outcome [OF r m] obtain t0 k lo hi where
    f: "find (\<lambda>t. toa_name t = filename) (table (st_toas st)) = Some t0" and
    d: "dmx_search (st_store st ! model) (t_mjd_float t0) 1 = Inr (k, lo, hi)" and
    tr: "st_trace st' = st_trace st @
         (if no_toa_inside lo hi (other_rows filename (table (st_toas st)))
          then [LogDebug (Some k)] else []) @
         [GLSFit (fitted_model (st_store st ! model) k lo hi (other_rows filename (table (st_toas st))))
            (other_rows filename (table (st_toas st)))]"
    by blast
  have tr': "st_trace st' = (st_trace st @
         (if no_toa_inside lo hi (other_rows filename (table (st_toas st)))
          then [LogDebug (Some k)] else [])) @
        [GLSFit (if no_toa_inside lo hi (other_rows filename (table (st_toas st)))
                 then remove_window k (st_store st ! model) else st_store st ! model)
           (other_rows filename (table (st_toas st)))]"
    using tr by (simp add: fitted_model_def)
  note a = epoch_iter_restores [OF r m]
  from f d tr' a show ?thesis by (auto simp: remove_window_map_of)
qed

text \<open>
  Claim C5, as stated, fails for an epoch that is not inside one window. In \<open>rows3\<close> the
  epoch \<^verbatim>\<open>a.ff\<close> has its first TOA in window 1 and its second TOA, at 15.25, outside it;
  the only other TOA is in window 2. The parameters of window 1 are removed all the same:
  the fitter gets the component with window 2 only.
\<close>

theorem dmx_window_removal_counterexample:
  "toa_name (row 1 (61 / 4) ''a.ff'') = Some (FStr ''a.ff'')
   \<and> \<not> inside (t_mjd_float (row 1 (61 / 4) ''a.ff'')) (window two_windows 1)
   \<and> map_sum id st_trace
       (epoch_iter (ext 110) (1 / 1000000) 100 24 3 0 (get_flag_value ''name'' rows3) st3
          (Some (FStr ''a.ff'')))
     = Inr [LogDebug (Some 1),
            GLSFit [(DMXR1 2, 10), (DMXR2 2, 20), (DMX 2, 1)] [row 2 (33 / 2) ''b.ff'']]"
  by (simp add: model_defs example_defs toa_name_def window_def inside_def)

theorem dmx_window_removal_rule_witness:
  "\<exists>st' t0 k lo hi pre.
      epoch_iter (ext 110) (1 / 1000000) 100 24 3 0 (get_flag_value ''name'' rows3) st3
        (Some (FStr ''b.ff'')) = Inr st'
    \<and> find (\<lambda>t. toa_name t = Some (FStr ''b.ff'')) (table toas3) = Some t0
    \<and> dmx_search two_windows (t_mjd_float t0) 1 = Inr (k, lo, hi)
    \<and> st_trace st' = pre @
        [GLSFit (if no_toa_inside lo hi (other_rows (Some (FStr ''b.ff'')) (table toas3))
                 then remove_window k two_windows else two_windows)
           (other_rows (Some (FStr ''b.ff'')) (table toas3))]"
proof -
  have "\<exists>st'. epoch_iter (ext 110) (1 / 1000000) 100 24 3 0 (get_flag_value ''name'' rows3) st3
          (Some (FStr ''b.ff'')) = Inr st'"
    by (simp add: model_defs example_defs)
  then obtain st' where
    run: "epoch_iter (ext 110) (1 / 1000000) 100 24 3 0 (get_flag_value ''name'' rows3) st3
          (Some (FStr ''b.ff'')) = Inr st'" ..
  have m: "0 < length (st_store st3)" by (simp add: st3_def)
  have t: "st_toas st3 = toas3" and s: "st_store st3 ! 0 = two_windows"
    by (simp_all add: st3_def)
  from dmx_window_removal_rule [OF run m] run show ?thesis
    unfolding t s by blast
qed

lemma expected_line_filename:
  "expected_line X chi2_init ndof_init ntoas_init dmxc rows filename = Some line
     \<Longrightarrow> l_filename line = filename"
  by (auto simp: expected_line_def Let_def split: option.splits sum.splits prod.splits)

lemma expected_lines_filenames:
  "map Some lines = map (expected_line X chi2_init ndof_init ntoas_init dmxc rows) fns
     \<Longrightarrow> map l_filename lines = fns"
proof (induction fns arbitrary: lines)
  case Nil
  then show ?case by simp
next
  case (Cons fn fns)
  then obtain line rest where l: "lines = line # rest" by (cases lines) auto
  from Cons.prems l have
    h: "expected_line X chi2_init ndof_init ntoas_init dmxc rows fn = Some line" and
    t: "map Some rest = map (expected_line X chi2_init ndof_init ntoas_init dmxc rows) fns"
    by simp_all
  show ?case using expected_line_filename [OF h] Cons.IH [OF t] l by simp
qed

lemma epochalyptica_lines:
  assumes run: "epochalyptica X tc thr model h T = Inr (T', h', lines, ev)"
    and m: "model < length h"
  shows "map Some lines
           = map (expected_line X (fit_toas X (h ! model) (table T))
                    (residuals_dof X (h ! model) (table T)) (length (table T))
                    (h ! model) (table T))
               (remdups (map toa_name (table T)))"
proof -
  from run obtain st where
    loop: "epochalyptica_loop X thr model h T = Inr st" and l: "lines = st_fout st"
    by (auto simp: epochalyptica_def split: sum.splits)
  have fl: "get_flag_value ''name'' (table T) = map toa_name (table T)"
    by (simp add: get_flag_value_def toa_name_def)
  from loop have
    "epoch_loop X thr (fit_toas X (h ! model) (table T)) (residuals_dof X (h ! model) (table T))
       (length (table T)) model (map toa_name (table T))
       \<lparr>st_toas = T, st_store = h, st_epochs_to_drop = [], st_fout = [],
         st_trace = [GLSFit (h ! model) (table T),
                     LogNumEpochs (length (remdups (map toa_name (table T))))]\<rparr>
       (remdups (map toa_name (table T))) = Inr st"
    by (simp add: epochalyptica_loop_def Let_def fl)
  from epoch_loop_lines [OF this] m l show ?thesis by simp
qed

text \<open>
  Claim C8, amended. When \<^verbatim>\<open>epochalyptica\<close> returns, \<^verbatim>\<open>epochdrop.txt\<close> has one line for each
  distinct file name of the table, in the order of the loop, and each is the line
  \<open>expected_line\<close> describes: file name, receiver and integer MJD of the epoch's first
  TOA, initial number of TOAs minus the number left by the mask, the F-test value, and
  \<open>1 / sqrt\<close> of the sum of \<open>1 / error\<^sup>2\<close> over the epoch. The sentinel \<^verbatim>\<open>False\<close> raises
  nothing in the format; it is written as the number zero, as a float 0 would be.
\<close>

theorem epochdrop_one_line_per_epoch:
  assumes run: "epochalyptica X tc thr model h T = Inr (T', h', lines, ev)"
    and m: "model < length h"
  shows "map Some lines
           = map (expected_line X (fit_toas X (h ! model) (table T))
                    (residuals_dof X (h ! model) (table T)) (length (table T))
                    (h ! model) (table T))
               (remdups (map toa_name (table T)))
       \<and> map l_filename lines = remdups (map toa_name (table T))
       \<and> distinct (map l_filename lines)
       \<and> length lines = card (toa_name ` set (table T))
       \<and> py_format_e (PyBool False) = py_format_e (PyFloat 0)"
proof -
  note a = epochalyptica_lines [OF run m]
  note b = expected_lines_filenames [OF a]
  have c: "distinct (map l_filename lines)" using b by simp
  have "length lines = length (map l_filename lines)" by simp
  also have "\<dots> = card (set (map toa_name (table T)))"
    unfolding b by (rule length_remdups_card_conv)
  finally have d: "length lines = card (toa_name ` set (table T))" by simp
  show ?thesis using a b c d by (simp add: py_format_e_def)
qed

lemmas run_defs = model_defs epochalyptica_def epochalyptica_loop_def write_excise_def
  where_eq_def outdir_def excise_timfile_def Let_def

theorem epochdrop_one_line_per_epoch_witness:
  "\<exists>T' h' lines ev.
      epochalyptica (ext 110) tc0 (1 / 1000000) 0 [two_windows] toas3 = Inr (T', h', lines, ev)
    \<and> map l_filename lines = [Some (FStr ''a.ff''), Some (FStr ''b.ff'')]
    \<and> length lines = card (toa_name ` set (table toas3))"
proof -
  have "\<exists>r. epochalyptica (ext 110) tc0 (1 / 1000000) 0 [two_windows] toas3 = Inr r"
    by (simp add: run_defs example_defs upt_rec)
  then obtain T' h' lines ev where
    run: "epochalyptica (ext 110) tc0 (1 / 1000000) 0 [two_windows] toas3
            = Inr (T', h', lines, ev)"
    by (metis prod_cases4)
  have m: "0 < length [two_windows]" by simp
  have n: "remdups (map toa_name (table toas3)) = [Some (FStr ''a.ff''), Some (FStr ''b.ff'')]"
    by (simp add: toas3_def rows3_def row_def toa_name_def)
  from epochdrop_one_line_per_epoch [OF run m] run n show ?thesis by auto
qed

text \<open>
  Claim C8, as stated, fails in its last part. For the epoch \<^verbatim>\<open>a.ff\<close> of \<open>rows3\<close> the
  refit has the higher chi-squared, the F-test is the sentinel \<^verbatim>\<open>False\<close>, and the field
  of the line is the number 0 in scientific notation, not the sentinel.
\<close>

theorem sentinel_written_as_zero_counterexample:
  "ftest_value (fdtr_closed 24) 100 24 110 7 = Inr (PyBool False)
   \<and> map_sum id (map l_ftest \<circ> st_fout)
       (epoch_iter (ext 110) (1 / 1000000) 100 24 3 0 (get_flag_value ''name'' rows3) st3
          (Some (FStr ''a.ff'')))
     = Inr [py_format_e (PyFloat 0)]"
  by (simp add: model_defs example_defs ftest_value_def)

section \<open>Properties of the end of epochalyptica\<close>

lemma apply_epochdrop_eq:
  "apply_epochdrop X names etds (T, ev)
     = (cut_flagged X names etds T,
        ev @ map (\<lambda>etd. ApplyCutFlag (where_eq names etd) ''epochdrop'') etds)"
  by (induction etds arbitrary: T ev) auto

lemma write_excise_no_drop:
  assumes "names_of (orig_table (st_toas st)) = Inr names" "st_epochs_to_drop st = []"
  shows "write_excise X tc model st
     = Inr (apply_cut_select X ((st_toas st)\<lparr>table := orig_table (st_toas st)\<rparr>)
              ''resumption after write_tim (excise)'',
            st_store st,
            st_trace st @
              [LogInfo ''No epochs dropped (epochalyptica).'', ConstructFitter,
               WriteTim (excise_timfile tc) (st_store st ! model) (orig_table (st_toas st)),
               ApplyCutSelect ''resumption after write_tim (excise)''])"
  using assms by (simp add: write_excise_def Let_def)

lemma write_excise_drop:
  assumes n: "names_of (orig_table (st_toas st)) = Inr names"
    and d: "st_epochs_to_drop st \<noteq> []"
    and m: "model < length (st_store st)"
    and s: "setup_dmx X (st_store st ! model)
              (apply_cut_select X (cut_flagged X names (st_epochs_to_drop st) (st_toas st))
                 ''epoch drop analysis'') = (m', T3)"
  shows "write_excise X tc model st
     = Inr (apply_cut_select X (T3\<lparr>table := orig_table T3\<rparr>)
              ''resumption after write_tim (excise)'',
            (st_store st)[model := m'],
            st_trace st @
              map (\<lambda>etd. ApplyCutFlag (where_eq names etd) ''epochdrop'') (st_epochs_to_drop st) @
              [ApplyCutSelect ''epoch drop analysis'', SetupDmx, ConstructFitter,
               WriteTim (excise_timfile tc) m' (orig_table T3),
               ApplyCutSelect ''resumption after write_tim (excise)''])"
  using n d m s by (simp add: write_excise_def Let_def apply_epochdrop_eq)

lemma epoch_iter_no_cut_events:
  assumes r: "epoch_iter X thr chi2_init ndof_init ntoas_init model filenames st filename = Inr st'"
    and m: "model < length (st_store st)"
  shows "filter is_cut_or_setup (st_trace st') = filter is_cut_or_setup (st_trace st)"
proof -
  from epoch_iter_outcome [OF r m] obtain k lo hi where
    tr: "st_trace st' = st_trace st @
         (if no_toa_inside lo hi (other_rows filename (table (st_toas st)))
          then [LogDebug (Some k)] else []) @
         [GLSFit (fitted_model (st_store st ! model) k lo hi (other_rows filename (table (st_toas st))))
            (other_rows filename (table (st_toas st)))]"
    by blast
  show ?thesis unfolding tr by (simp add: is_cut_or_setup_def)
qed

lemma epoch_loop_no_cut_events:
  "epoch_loop X thr chi2_init ndof_init ntoas_init model filenames st fns = Inr st'
     \<Longrightarrow> model < length (st_store st)
     \<Longrightarrow> filter is_cut_or_setup (st_trace st') = filter is_cut_or_setup (st_trace st)"
proof (induction fns arbitrary: st)
  case Nil
  then show ?case by simp
next
  case (Cons fn fns)
  from Cons.prems(1) obtain mid where
    it: "epoch_iter X thr chi2_init ndof_init ntoas_init model filenames st fn = Inr mid" and
    rest: "epoch_loop X thr chi2_init ndof_init ntoas_init model filenames mid fns = Inr st'"
    by (auto split: sum.splits)
  note a = epoch_iter_restores [OF it Cons.prems(2)]
  from a have mm: "model < length (st_store mid)" by simp
  from Cons.IH [OF rest mm] epoch_iter_no_cut_events [OF it Cons.prems(2)] show ?case by simp
qed

lemma epochalyptica_loop_state:
  assumes loop: "epochalyptica_loop X thr model h T = Inr st" and m: "model < length h"
  shows "st_toas st = T \<and> st_store st ! model = h ! model \<and> model < length (st_store st)
         \<and> filter is_cut_or_setup (st_trace st) = []"
proof -
  let ?st0 = "\<lparr>st_toas = T, st_store = h, st_epochs_to_drop = [], st_fout = [],
         st_trace = [GLSFit (h ! model) (table T),
                     LogNumEpochs (length (remdups (get_flag_value ''name'' (table T))))]\<rparr>"
  from loop have l:
    "epoch_loop X thr (fit_toas X (h ! model) (table T)) (residuals_dof X (h ! model) (table T))
       (length (table T)) model (get_flag_value ''name'' (table T)) ?st0
       (remdups (get_flag_value ''name'' (table T))) = Inr st"
    by (simp add: epochalyptica_loop_def Let_def)
  have m0: "model < length (st_store ?st0)" using m by simp
  from epoch_loop_restores [OF l m0] epoch_loop_no_cut_events [OF l m0]
  show ?thesis by (simp add: is_cut_or_setup_def)
qed

text \<open>
  Claim C6. The loop itself applies no cut and sets up no windows. When it has recorded
  no epoch to drop, \<^verbatim>\<open>epochalyptica\<close> logs that, restores the full table and writes the
  excise file from the baseline model, unchanged, and all the TOAs of \<^verbatim>\<open>orig_table\<close>;
  no cut flag, no cut selection and no \<^verbatim>\<open>setup_dmx\<close> come before the write. When it has
  recorded at least one, the cut flag is applied for each recorded epoch, then the cut
  selection, then \<^verbatim>\<open>setup_dmx\<close>, and the file is written after them. In both cases the
  cut selection is applied once more after the write, to resume the analysis.
\<close>

theorem no_drop_goes_straight_to_write:
  assumes loop: "epochalyptica_loop X thr model h T = Inr st"
    and names: "names_of (orig_table T) = Inr names"
    and m: "model < length h"
  shows "filter is_cut_or_setup (st_trace st) = []
    \<and> (st_epochs_to_drop st = [] \<longrightarrow>
         epochalyptica X tc thr model h T
           = Inr (apply_cut_select X (T\<lparr>table := orig_table T\<rparr>)
                    ''resumption after write_tim (excise)'',
                  st_store st, st_fout st,
                  st_trace st @
                    [LogInfo ''No epochs dropped (epochalyptica).'', ConstructFitter,
                     WriteTim (excise_timfile tc) (h ! model) (orig_table T),
                     ApplyCutSelect ''resumption after write_tim (excise)'']))
    \<and> (st_epochs_to_drop st \<noteq> [] \<longrightarrow>
         (\<exists>m' T3.
            setup_dmx X (h ! model)
              (apply_cut_select X (cut_flagged X names (st_epochs_to_drop st) T)
                 ''epoch drop analysis'') = (m', T3)
          \<and> epochalyptica X tc thr model h T
              = Inr (apply_cut_select X (T3\<lparr>table := orig_table T3\<rparr>)
                       ''resumption after write_tim (excise)'',
                     (st_store st)[model := m'], st_fout st,
                     st_trace st @
                       map (\<lambda>etd. ApplyCutFlag (where_eq names etd) ''epochdrop'')
                         (st_epochs_to_drop st) @
                       [ApplyCutSelect ''epoch drop analysis'', SetupDmx, ConstructFitter,
                        WriteTim (excise_timfile tc) m' (orig_table T3),
                        ApplyCutSelect ''resumption after write_tim (excise)''])))"
proof -
  note s = epochalyptica_loop_state [OF loop m]
  have t: "st_toas st = T" and sm: "st_store st ! model = h ! model"
    and ml: "model < length (st_store st)" using s by simp_all
  have n: "names_of (orig_table (st_toas st)) = Inr names" using names t by simp
  have a: "filter is_cut_or_setup (st_trace st) = []" using s by simp
  have b: "epochalyptica X tc thr model h T
           = Inr (apply_cut_select X (T\<lparr>table := orig_table T\<rparr>)
                    ''resumption after write_tim (excise)'',
                  st_store st, st_fout st,
                  st_trace st @
                    [LogInfo ''No epochs dropped (epochalyptica).'', ConstructFitter,
                     WriteTim (excise_timfile tc) (h ! model) (orig_table T),
                     ApplyCutSelect ''resumption after write_tim (excise)''])"
    if e: "st_epochs_to_drop st = []"
    using write_excise_no_drop [OF n e, of X tc model] loop
    by (simp add: epochalyptica_def t sm)
  have c: "\<exists>m' T3.
            setup_dmx X (h ! model)
              (apply_cut_select X (cut_flagged X names (st_epochs_to_drop st) T)
                 ''epoch drop analysis'') = (m', T3)
          \<and> epochalyptica X tc thr model h T
              = Inr (apply_cut_select X (T3\<lparr>table := orig_table T3\<rparr>)
                       ''resumption after write_tim (excise)'',
                     (st_store st)[model := m'], st_fout st,
                     st_trace st @
                       map (\<lambda>etd. ApplyCutFlag (where_eq names etd) ''epochdrop'')
                         (st_epochs_to_drop st) @
                       [ApplyCutSelect ''epoch drop analysis'', SetupDmx, ConstructFitter,
                        WriteTim (excise_timfile tc) m' (orig_table T3),
                        ApplyCutSelect ''resumption after write_tim (excise)''])"
    if d: "st_epochs_to_drop st \<noteq> []"
  proof -
    obtain m' T3 where
      sd: "setup_dmx X (st_store st ! model)
              (apply_cut_select X (cut_flagged X names (st_epochs_to_drop st) (st_toas st))
                 ''epoch drop analysis'') = (m', T3)"
      by (cases "setup_dmx X (st_store st ! model)
              (apply_cut_select X (cut_flagged X names (st_epochs_to_drop st) (st_toas st))
                 ''epoch drop analysis'')") auto
    have "epochalyptica X tc thr model h T
              = Inr (apply_cut_select X (T3\<lparr>table := orig_table T3\<rparr>)
                       ''resumption after write_tim (excise)'',
                     (st_store st)[model := m'], st_fout st,
                     st_trace st @
                       map (\<lambda>etd. ApplyCutFlag (where_eq names etd) ''epochdrop'')
                         (st_epochs_to_drop st) @
                       [ApplyCutSelect ''epoch drop analysis'', SetupDmx, ConstructFitter,
                        WriteTim (excise_timfile tc) m' (orig_table T3),
                        ApplyCutSelect ''resumption after write_tim (excise)''])"
      using write_excise_drop [OF n d ml sd, of tc] loop by (simp add: epochalyptica_def)
    then show ?thesis using sd t sm by auto
  qed
  from a b c show ?thesis by blast
qed

theorem no_drop_goes_straight_to_write_witness:
  "(\<exists>st. epochalyptica_loop (ext 90) (1 / 1000000) 0 [two_windows] toas3 = Inr st
        \<and> st_epochs_to_drop st = []
        \<and> epochalyptica (ext 90) tc0 (1 / 1000000) 0 [two_windows] toas3
            = Inr (toas3, st_store st, st_fout st,
                   st_trace st @
                     [LogInfo ''No epochs dropped (epochalyptica).'', ConstructFitter,
                      WriteTim ''outlier/J0000/J0000_excise.tim'' two_windows rows3,
                      ApplyCutSelect ''resumption after write_tim (excise)'']))
   \<and> (\<exists>st. epochalyptica_loop (ext 110) (1 / 1000000) 0 [two_windows] toas3 = Inr st
        \<and> st_epochs_to_drop st = [Some (FStr ''a.ff''), Some (FStr ''b.ff'')]
        \<and> epochalyptica (ext 110) tc0 (1 / 1000000) 0 [two_windows] toas3
            = Inr (toas3, (st_store st)[0 := two_windows], st_fout st,
                   st_trace st @
                     [ApplyCutFlag [0, 1] ''epochdrop'', ApplyCutFlag [2] ''epochdrop'',
                      ApplyCutSelect ''epoch drop analysis'', SetupDmx, ConstructFitter,
                      WriteTim ''outlier/J0000/J0000_excise.tim'' two_windows rows3,
                      ApplyCutSelect ''resumption after write_tim (excise)'']))"
proof -
  have names: "names_of (orig_table toas3) = Inr [FStr ''a.ff'', FStr ''a.ff'', FStr ''b.ff'']"
    by (simp add: toas3_def rows3_def row_def)
  have m: "0 < length [two_windows]" by simp
  have tim: "excise_timfile tc0 = ''outlier/J0000/J0000_excise.tim''"
    by (simp add: excise_timfile_def outdir_def tc0_def)
  have acs: "apply_cut_select (ext c) T r = T" for c T r by (simp add: ext_def)
  have sd: "setup_dmx (ext c) dm T = (dm, T)" for c dm T by (simp add: ext_def)
  have acf: "apply_cut_flag (ext c) T inds r = T" for c T inds r by (simp add: ext_def)
  have full: "toas3\<lparr>table := rows3\<rparr> = toas3" by (simp add: toas3_def)
  have ot: "orig_table toas3 = rows3" by (simp add: toas3_def)
  have pw: "\<not> ((9 / 10 :: real) ^ 24 * 1000000 < 1)" by (simp add: power_divide)
  have "\<exists>st. epochalyptica_loop (ext 90) (1 / 1000000) 0 [two_windows] toas3 = Inr st
          \<and> st_epochs_to_drop st = []"
    by (simp add: epochalyptica_loop_def Let_def model_defs example_defs pw)
  then obtain st where
    l1: "epochalyptica_loop (ext 90) (1 / 1000000) 0 [two_windows] toas3 = Inr st" and
    d1: "st_epochs_to_drop st = []" by blast
  have p1: "epochalyptica (ext 90) tc0 (1 / 1000000) 0 [two_windows] toas3
            = Inr (toas3, st_store st, st_fout st,
                   st_trace st @
                     [LogInfo ''No epochs dropped (epochalyptica).'', ConstructFitter,
                      WriteTim ''outlier/J0000/J0000_excise.tim'' two_windows rows3,
                      ApplyCutSelect ''resumption after write_tim (excise)''])"
    using no_drop_goes_straight_to_write [OF l1 names m, of tc0] d1
    by (simp add: tim acs full ot)
  have "\<exists>st. epochalyptica_loop (ext 110) (1 / 1000000) 0 [two_windows] toas3 = Inr st
          \<and> st_epochs_to_drop st = [Some (FStr ''a.ff''), Some (FStr ''b.ff'')]"
    by (simp add: epochalyptica_loop_def Let_def model_defs example_defs)
  then obtain st2 where
    l2: "epochalyptica_loop (ext 110) (1 / 1000000) 0 [two_windows] toas3 = Inr st2" and
    d2: "st_epochs_to_drop st2 = [Some (FStr ''a.ff''), Some (FStr ''b.ff'')]" by blast
  have w: "where_eq [FStr ''a.ff'', FStr ''a.ff'', FStr ''b.ff''] (Some (FStr ''a.ff'')) = [0, 1]"
    "where_eq [FStr ''a.ff'', FStr ''a.ff'', FStr ''b.ff''] (Some (FStr ''b.ff'')) = [2]"
    by (simp_all add: where_eq_def upt_rec)
  have p2: "epochalyptica (ext 110) tc0 (1 / 1000000) 0 [two_windows] toas3
            = Inr (toas3, (st_store st2)[0 := two_windows], st_fout st2,
                   st_trace st2 @
                     [ApplyCutFlag [0, 1] ''epochdrop'', ApplyCutFlag [2] ''epochdrop'',
                      ApplyCutSelect ''epoch drop analysis'', SetupDmx, ConstructFitter,
                      WriteTim ''outlier/J0000/J0000_excise.tim'' two_windows rows3,
                      ApplyCutSelect ''resumption after write_tim (excise)''])"
    using no_drop_goes_straight_to_write [OF l2 names m, of tc0] d2
    by (simp add: tim acs sd acf full ot w)
  from l1 d1 p1 l2 d2 p2 show ?thesis by blast
qed

text \<open>
  Claim C1, at the input where the code departs from it. The initial fit has chi-squared
  100 on 50 degrees of freedom, the refit without the epoch has chi-squared 110 on 48
  degrees of freedom, and the threshold is the default \<open>1.0e-6\<close>. \<open>Ftest\<close> returns the
  sentinel \<^verbatim>\<open>False\<close>: there is no F-test value. The comparison
  \<^verbatim>\<open>ftest < ftest_threshold\<close> takes \<^verbatim>\<open>False\<close> as 0, and the epoch is appended to
  \<^verbatim>\<open>epochs_to_drop\<close>. With the same sentinel set by the branch for unchanged degrees of
  freedom, the epoch is not appended. In the run of \<^verbatim>\<open>epochalyptica\<close> on \<open>rows3\<close> with a
  fitter whose chi-squared rises from 100 to 110 when an epoch is masked, both epochs get
  the sentinel and the TOAs of both receive the cut flag \<^verbatim>\<open>epochdrop\<close>.
\<close>

theorem sentinel_epoch_is_dropped:
  "Ftest (fdtr_closed 24) 100 50 110 48 = Inr (PyBool False)
   \<and> ftest_decision (fdtr_closed 24) (1 / 1000000) 100 50 110 48 ''a.ff'' []
       = Inr (PyBool False, [''a.ff''])
   \<and> ftest_decision (fdtr_closed 24) (1 / 1000000) 100 50 110 50 ''a.ff'' []
       = Inr (PyBool False, [])
   \<and> map_sum id (map l_ftest \<circ> fst \<circ> snd \<circ> snd)
         (epochalyptica (ext 110) tc0 (1 / 1000000) 0 [two_windows] toas3)
       = Inr [0, 0]
   \<and> map_sum id (filter is_cut_or_setup \<circ> snd \<circ> snd \<circ> snd)
         (epochalyptica (ext 110) tc0 (1 / 1000000) 0 [two_windows] toas3)
       = Inr [ApplyCutFlag [0, 1] ''epochdrop'', ApplyCutFlag [2] ''epochdrop'',
              ApplyCutSelect ''epoch drop analysis'', SetupDmx,
              ApplyCutSelect ''resumption after write_tim (excise)'']"
  by (simp add: run_defs example_defs is_cut_or_setup_def upt_rec)

section \<open>Properties of the outlier probabilities\<close>

lemma pout_flags_ok:
  assumes "i + length ois \<le> length p" "\<forall>oi \<in> set ois. oi < length orig" "distinct ois"
  shows "\<exists>orig'. pout_flags method (Some p) i ois orig = Inr orig'
           \<and> length orig' = length orig
           \<and> (\<forall>j < length ois.
                 map_of (t_flags (orig' ! (ois ! j))) (''pout_'' @ method) = Some (FNum (p ! (i + j))))
           \<and> (\<forall>r < length orig. r \<notin> set ois \<longrightarrow> orig' ! r = orig ! r)"
  using assms
proof (induction ois arbitrary: i orig)
  case Nil
  then show ?case by simp
next
  case (Cons oi ois)
  let ?row = "(orig ! oi)\<lparr>t_flags := AList.update (''pout_'' @ method) (FNum (p ! i))
                                 (t_flags (orig ! oi))\<rparr>"
  let ?orig1 = "orig[oi := ?row]"
  have i: "i < length p" and oi: "oi < length orig" using Cons.prems by simp_all
  have step: "pout_flags method (Some p) i (oi # ois) orig
                = pout_flags method (Some p) (Suc i) ois ?orig1"
    using i oi by simp
  have a: "Suc i + length ois \<le> length p" using Cons.prems(1) by simp
  have b: "\<forall>x \<in> set ois. x < length ?orig1" using Cons.prems(2) by simp
  have c: "distinct ois" and d: "oi \<notin> set ois" using Cons.prems(3) by simp_all
  from Cons.IH [OF a b c] obtain orig' where
    r: "pout_flags method (Some p) (Suc i) ois ?orig1 = Inr orig'" and
    l: "length orig' = length ?orig1" and
    f: "\<forall>j < length ois.
          map_of (t_flags (orig' ! (ois ! j))) (''pout_'' @ method) = Some (FNum (p ! (Suc i + j)))" and
    u: "\<forall>r < length ?orig1. r \<notin> set ois \<longrightarrow> orig' ! r = ?orig1 ! r"
    by blast
  have here: "orig' ! oi = ?row" using u oi d by simp
  have flag0: "map_of (t_flags (orig' ! oi)) (''pout_'' @ method) = Some (FNum (p ! i))"
    unfolding here by (simp add: AList.update_conv')
  have flags: "\<forall>j < length (oi # ois).
      map_of (t_flags (orig' ! ((oi # ois) ! j))) (''pout_'' @ method) = Some (FNum (p ! (i + j)))"
  proof (intro allI impI)
    fix j assume j: "j < length (oi # ois)"
    show "map_of (t_flags (orig' ! ((oi # ois) ! j))) (''pout_'' @ method) = Some (FNum (p ! (i + j)))"
    proof (cases j)
      case 0
      then show ?thesis using flag0 by simp
    next
      case (Suc j')
      then have "j' < length ois" using j by simp
      then show ?thesis using f Suc by simp
    qed
  qed
  have unch: "\<forall>r < length orig. r \<notin> set (oi # ois) \<longrightarrow> orig' ! r = orig ! r"
    using u by auto
  from step r l flags unch show ?case by simp
qed

lemma calculate_pout_unrecognized:
  assumes "outlier_method tc \<noteq> ''hmc''" "outlier_method tc \<noteq> ''gibbs''"
  shows "table T \<noteq> [] \<Longrightarrow>
           calculate_pout X tc model T = ([unrecognized (outlier_method tc)], Inl UnboundLocalError)"
    and "table T = [] \<Longrightarrow>
           calculate_pout X tc model T
             = (unrecognized (outlier_method tc) # pout_written X tc model (orig_table T),
                Inr (apply_cut_select X (T\<lparr>table := orig_table T\<rparr>)
                       ''resumption after write_tim, pout''))"
proof -
  show "calculate_pout X tc model T = ([unrecognized (outlier_method tc)], Inl UnboundLocalError)"
    if "table T \<noteq> []"
  proof -
    from that obtain t ts where "table T = t # ts" by (cases "table T") auto
    then show ?thesis using assms
      by (simp add: calculate_pout_def Let_def unrecognized_def)
  qed
  show "calculate_pout X tc model T
             = (unrecognized (outlier_method tc) # pout_written X tc model (orig_table T),
                Inr (apply_cut_select X (T\<lparr>table := orig_table T\<rparr>)
                       ''resumption after write_tim, pout''))"
    if "table T = []"
    using that assms
    by (simp add: calculate_pout_def Let_def unrecognized_def pout_written_def)
qed

lemma calculate_pout_sampled:
  assumes len: "length (table T) \<le> length p"
    and idx: "\<forall>t \<in> set (table T). t_index t < length (orig_table T)"
    and dis: "distinct (map t_index (table T))"
    and meth: "(outlier_method tc = ''hmc''
                  \<and> p = outlier_hmc X model (table T) (outlier_samples tc) (outlier_burn tc)
                  \<and> call = CallOutlierHMC (outlier_samples tc) (outlier_burn tc))
               \<or> (outlier_method tc = ''gibbs''
                  \<and> p = gibbs_run X model (table T) (outlier_samples tc)
                  \<and> call = CallGibbs (outlier_samples tc))"
  shows "\<exists>orig. calculate_pout X tc model T
                  = (call # pout_written X tc model orig,
                     Inr (apply_cut_select X (T\<lparr>table := orig, orig_table := orig\<rparr>)
                            ''resumption after write_tim, pout''))
           \<and> length orig = length (orig_table T)
           \<and> (\<forall>i < length (table T).
                 map_of (t_flags (orig ! t_index (table T ! i))) (''pout_'' @ outlier_method tc)
                   = Some (FNum (p ! i)))"
proof -
  have a: "0 + length (map t_index (table T)) \<le> length p" using len by simp
  have b: "\<forall>oi \<in> set (map t_index (table T)). oi < length (orig_table T)" using idx by simp
  from pout_flags_ok [OF a b dis, of "outlier_method tc"] obtain orig where
    r: "pout_flags (outlier_method tc) (Some p) 0 (map t_index (table T)) (orig_table T) = Inr orig" and
    l: "length orig = length (orig_table T)" and
    f: "\<forall>j < length (map t_index (table T)).
          map_of (t_flags (orig ! (map t_index (table T) ! j))) (''pout_'' @ outlier_method tc)
            = Some (FNum (p ! (0 + j)))"
    by blast
  have f': "\<forall>i < length (table T).
                 map_of (t_flags (orig ! t_index (table T ! i))) (''pout_'' @ outlier_method tc)
                   = Some (FNum (p ! i))"
    using f by simp
  have c: "calculate_pout X tc model T
                  = (call # pout_written X tc model orig,
                     Inr (apply_cut_select X (T\<lparr>table := orig, orig_table := orig\<rparr>)
                            ''resumption after write_tim, pout''))"
    using meth r by (auto simp: calculate_pout_def Let_def pout_written_def)
  from c l f' show ?thesis by blast
qed

text \<open>
  Claim C7, as stated, fails when the current table is empty (every TOA already cut): the
  loop over the table has no iteration, \<^verbatim>\<open>pout\<close> is never read, and \<^verbatim>\<open>calculate_pout\<close>
  goes on to write the file and returns.
\<close>

theorem unrecognized_method_empty_table_counterexample:
  "outlier_method tc_foo = ''foo''
   \<and> table toas_all_cut = []
   \<and> calculate_pout (ext 110) tc_foo two_windows toas_all_cut
       = ([LogError ''Specified method (foo) is not recognized.'', ConstructFitter,
           WriteTim ''outlier/J0000/J0000_pout.tim'' two_windows rows3,
           ApplyCutSelect ''resumption after write_tim, pout''],
          Inr toas3)"
  by (simp add: calculate_pout_def Let_def tc_foo_def tc0_def toas_all_cut_def toas3_def
        ext_def pout_timfile_def outdir_def)

text \<open>
  Claim C7, amended. For a method name that is neither \<^verbatim>\<open>hmc\<close> nor \<^verbatim>\<open>gibbs\<close>,
  \<^verbatim>\<open>calculate_pout\<close> logs the error without raising; then, when the current table has at
  least one TOA, the first read of \<^verbatim>\<open>pout\<close> raises \<^verbatim>\<open>UnboundLocalError\<close>, and when the
  table is empty nothing reads \<^verbatim>\<open>pout\<close> and the function writes the file and returns.
  For \<^verbatim>\<open>hmc\<close> and \<^verbatim>\<open>gibbs\<close> the sampler of that name is called and, given that it
  returns at least one probability per TOA of the table and that the TOAs have distinct
  indices into \<^verbatim>\<open>orig_table\<close>, the \<open>i\<close>-th probability is stored under the flag
  \<^verbatim>\<open>pout_<method>\<close> of the \<open>i\<close>-th TOA, in the table that is then written.
\<close>

theorem calculate_pout_by_method:
  "(outlier_method tc \<noteq> ''hmc'' \<and> outlier_method tc \<noteq> ''gibbs'' \<longrightarrow>
      (table T \<noteq> [] \<longrightarrow>
         calculate_pout X tc model T
           = ([unrecognized (outlier_method tc)], Inl UnboundLocalError))
    \<and> (table T = [] \<longrightarrow>
         calculate_pout X tc model T
           = (unrecognized (outlier_method tc) # pout_written X tc model (orig_table T),
              Inr (apply_cut_select X (T\<lparr>table := orig_table T\<rparr>)
                     ''resumption after write_tim, pout''))))
   \<and> ((outlier_method tc = ''hmc''
          \<and> p = outlier_hmc X model (table T) (outlier_samples tc) (outlier_burn tc)
          \<and> call = CallOutlierHMC (outlier_samples tc) (outlier_burn tc)
        \<or> outlier_method tc = ''gibbs''
          \<and> p = gibbs_run X model (table T) (outlier_samples tc)
          \<and> call = CallGibbs (outlier_samples tc))
       \<and> length (table T) \<le> length p
       \<and> (\<forall>t \<in> set (table T). t_index t < length (orig_table T))
       \<and> distinct (map t_index (table T)) \<longrightarrow>
      (\<exists>orig. calculate_pout X tc model T
                  = (call # pout_written X tc model orig,
                     Inr (apply_cut_select X (T\<lparr>table := orig, orig_table := orig\<rparr>)
                            ''resumption after write_tim, pout''))
           \<and> length orig = length (orig_table T)
           \<and> (\<forall>i < length (table T).
                 map_of (t_flags (orig ! t_index (table T ! i))) (''pout_'' @ outlier_method tc)
                   = Some (FNum (p ! i)))))"
proof -
  have a: "(table T \<noteq> [] \<longrightarrow>
         calculate_pout X tc model T
           = ([unrecognized (outlier_method tc)], Inl UnboundLocalError))
    \<and> (table T = [] \<longrightarrow>
         calculate_pout X tc model T
           = (unrecognized (outlier_method tc) # pout_written X tc model (orig_table T),
              Inr (apply_cut_select X (T\<lparr>table := orig_table T\<rparr>)
                     ''resumption after write_tim, pout'')))"
    if "outlier_method tc \<noteq> ''hmc'' \<and> outlier_method tc \<noteq> ''gibbs''"
    using calculate_pout_unrecognized [of tc T X model] that by blast
  have b: "\<exists>orig. calculate_pout X tc model T
                  = (call # pout_written X tc model orig,
                     Inr (apply_cut_select X (T\<lparr>table := orig, orig_table := orig\<rparr>)
                            ''resumption after write_tim, pout''))
           \<and> length orig = length (orig_table T)
           \<and> (\<forall>i < length (table T).
                 map_of (t_flags (orig ! t_index (table T ! i))) (''pout_'' @ outlier_method tc)
                   = Some (FNum (p ! i)))"
    if h: "(outlier_method tc = ''hmc''
          \<and> p = outlier_hmc X model (table T) (outlier_samples tc) (outlier_burn tc)
          \<and> call = CallOutlierHMC (outlier_samples tc) (outlier_burn tc)
        \<or> outlier_method tc = ''gibbs''
          \<and> p = gibbs_run X model (table T) (outlier_samples tc)
          \<and> call = CallGibbs (outlier_samples tc))
       \<and> length (table T) \<le> length p
       \<and> (\<forall>t \<in> set (table T). t_index t < length (orig_table T))
       \<and> distinct (map t_index (table T))"
  proof -
    from h have len: "length (table T) \<le> length p"
      and idx: "\<forall>t \<in> set (table T). t_index t < length (orig_table T)"
      and dis: "distinct (map t_index (table T))"
      and meth: "(outlier_method tc = ''hmc''
                  \<and> p = outlier_hmc X model (table T) (outlier_samples tc) (outlier_burn tc)
                  \<and> call = CallOutlierHMC (outlier_samples tc) (outlier_burn tc))
               \<or> (outlier_method tc = ''gibbs''
                  \<and> p = gibbs_run X model (table T) (outlier_samples tc)
                  \<and> call = CallGibbs (outlier_samples tc))"
      by blast+
    show ?thesis by (rule calculate_pout_sampled [OF len idx dis meth])
  qed
  from a b show ?thesis by blast
qed

theorem calculate_pout_by_method_witness:
  "calculate_pout (ext 110) tc_foo two_windows toas3
     = ([unrecognized ''foo''], Inl UnboundLocalError)
   \<and> (\<exists>orig. calculate_pout (ext 110) tc0 two_windows toas3
                 = (CallOutlierHMC 10 2 # pout_written (ext 110) tc0 two_windows orig,
                    Inr (toas3\<lparr>table := orig, orig_table := orig\<rparr>))
          \<and> length orig = 3
          \<and> map_of (t_flags (orig ! 0)) ''pout_hmc'' = Some (FNum (1 / 2))
          \<and> map_of (t_flags (orig ! 1)) ''pout_hmc'' = Some (FNum (1 / 2))
          \<and> map_of (t_flags (orig ! 2)) ''pout_hmc'' = Some (FNum (1 / 2)))"
proof -
  have m: "outlier_method tc_foo = ''foo''" by (simp add: tc_foo_def)
  have ne: "table toas3 \<noteq> []" by (simp add: toas3_def rows3_def)
  have first: "calculate_pout (ext 110) tc_foo two_windows toas3
                 = ([unrecognized ''foo''], Inl UnboundLocalError)"
    using calculate_pout_by_method [of tc_foo toas3 "ext 110" two_windows "[]" ConstructFitter]
      m ne by simp
  let ?p = "outlier_hmc (ext 110) two_windows (table toas3) (outlier_samples tc0) (outlier_burn tc0)"
  have p: "?p = [1 / 2, 1 / 2, 1 / 2]" by (simp add: ext_def toas3_def rows3_def)
  have tb: "map t_index (table toas3) = [0, 1, 2]" "length (table toas3) = 3"
    "length (orig_table toas3) = 3"
    by (simp_all add: toas3_def rows3_def row_def)
  have ix: "t_index (table toas3 ! 0) = 0" "t_index (table toas3 ! 1) = 1"
    "t_index (table toas3 ! 2) = 2"
    by (simp_all add: toas3_def rows3_def row_def)
  have idx: "\<forall>t \<in> set (table toas3). t_index t < length (orig_table toas3)"
    by (simp add: toas3_def rows3_def row_def)
  have hm: "outlier_method tc0 = ''hmc''" "outlier_samples tc0 = 10" "outlier_burn tc0 = 2"
    by (simp_all add: tc0_def)
  have acs: "apply_cut_select (ext 110) T r = T" for T r by (simp add: ext_def)
  from calculate_pout_by_method
         [of tc0 toas3 "ext 110" two_windows ?p "CallOutlierHMC 10 2"]
  obtain orig where
    c: "calculate_pout (ext 110) tc0 two_windows toas3
          = (CallOutlierHMC 10 2 # pout_written (ext 110) tc0 two_windows orig,
             Inr (toas3\<lparr>table := orig, orig_table := orig\<rparr>))" and
    l: "length orig = 3" and
    f: "\<forall>i < 3. map_of (t_flags (orig ! t_index (table toas3 ! i))) ''pout_hmc''
                   = Some (FNum (?p ! i))"
    using hm idx tb p by (auto simp: acs)
  have f0: "map_of (t_flags (orig ! 0)) ''pout_hmc'' = Some (FNum (1 / 2))"
    using f [rule_format, of 0] ix p by simp
  have f1: "map_of (t_flags (orig ! 1)) ''pout_hmc'' = Some (FNum (1 / 2))"
    using f [rule_format, of 1] ix p by simp
  have f2: "map_of (t_flags (orig ! 2)) ''pout_hmc'' = Some (FNum (1 / 2))"
    using f [rule_format, of 2] ix p by simp
  from first c l f0 f1 f2 show ?thesis by blast
qed

end
